theory Spec2Isabelle
  imports Complex_Main "HOL-Library.Word"
begin

section \<open>Values shared by the host code\<close>

type_synonym u32 = "32 word"

text \<open>
  Device memory (what \<open>cuda.mem_alloc\<close> hands back) is word addressed: one 32-bit word per
  index. \<open>memcpy_htod\<close> overwrites the first words of a buffer with a host array and
  \<open>memcpy_dtoh\<close> fills a host array of \<open>n\<close> words from the start of a buffer. Allocation
  sizes are not tracked: a copy past the end of an allocation is outside the model.
\<close>

type_synonym devmem = "nat \<Rightarrow> u32"

definition memcpy_htod :: "devmem \<Rightarrow> u32 list \<Rightarrow> devmem" where
  "memcpy_htod dst src = (\<lambda>i. if i < length src then src ! i else dst i)"

definition memcpy_dtoh :: "nat \<Rightarrow> devmem \<Rightarrow> u32 list" where
  "memcpy_dtoh n src = map src [0..<n]"

text \<open>Python exceptions that the modelled code can raise; \<open>SystemExit\<close> is \<open>sys.exit\<close>.\<close>

datatype error = SystemExit int | ValueError | AttributeError | IndexError | OverflowError

definition ebind :: "error + 'a \<Rightarrow> ('a \<Rightarrow> error + 'b) \<Rightarrow> error + 'b" where
  "ebind r f = (case r of Inl e \<Rightarrow> Inl e | Inr x \<Rightarrow> f x)"

text \<open>An attribute that has not been assigned yet raises \<open>AttributeError\<close> when read.\<close>

definition attr :: "'a option \<Rightarrow> error + 'a" where
  "attr a = (case a of None \<Rightarrow> Inl AttributeError | Some x \<Rightarrow> Inr x)"

text \<open>Indexing a one-dimensional array with a non-negative index.\<close>

definition item :: "'a list \<Rightarrow> nat \<Rightarrow> error + 'a" where
  "item xs i = (if i < length xs then Inr (xs ! i) else Inl IndexError)"

text \<open>
  A numpy array: its shape and its elements in row-major order. \<open>np.array([])\<close> has shape
  \<open>(0,)\<close>; \<open>np.array_equal\<close> compares shape and elements.
\<close>

record 'a ndarray =
  shape :: "nat list"
  data :: "'a list"

definition np_empty_array :: "'a ndarray" where
  "np_empty_array = \<lparr>shape = [0], data = []\<rparr>"

definition np_array_equal :: "'a ndarray \<Rightarrow> 'a ndarray \<Rightarrow> bool" where
  "np_array_equal a b = (shape a = shape b \<and> data a = data b)"

definition np_zeros2 :: "nat \<Rightarrow> nat \<Rightarrow> int ndarray" where
  "np_zeros2 n k = \<lparr>shape = [n, k], data = replicate (n * k) 0\<rparr>"

text \<open>\<open>a[e,:]\<close> of a two-dimensional array with \<open>k\<close> columns, and the assignment to it.\<close>

definition row :: "nat \<Rightarrow> 'a ndarray \<Rightarrow> nat \<Rightarrow> 'a list" where
  "row k a e = take k (drop (e * k) (data a))"

definition set_row :: "nat \<Rightarrow> 'a ndarray \<Rightarrow> nat \<Rightarrow> 'a list \<Rightarrow> 'a ndarray" where
  "set_row k a e xs =
     a\<lparr>data := take (e * k) (data a) @ take k xs @ drop (e * k + k) (data a)\<rparr>"

text \<open>The conversion of a Python integer to \<open>np.int32\<close> (\<open>astype(np.int32)\<close> wraps).\<close>

definition int32 :: "int \<Rightarrow> int" where
  "int32 x = sint (word_of_int x :: u32)"

section \<open>Library functions used by the constructor\<close>

text \<open>
  \<open>sympy.prevprime(n)\<close>: the largest prime below \<open>n\<close>; it raises \<open>ValueError\<close> when there
  is none (\<open>n < 3\<close>).
\<close>

definition is_prime :: "nat \<Rightarrow> bool" where
  "is_prime n = (1 < n \<and> list_all (\<lambda>d. \<not> d dvd n) [2..<n])"

primrec prime_at_most :: "nat \<Rightarrow> nat option" where
  "prime_at_most 0 = None"
| "prime_at_most (Suc k) = (if is_prime (Suc k) then Some (Suc k) else prime_at_most k)"

definition prevprime :: "nat \<Rightarrow> error + nat" where
  "prevprime n =
     (if n < 3 then Inl ValueError
      else case prime_at_most (n - 1) of None \<Rightarrow> Inl ValueError | Some p \<Rightarrow> Inr p)"

text \<open>
  \<open>np.random.choice(a, size=k, replace=False)\<close> draws a permutation of the positions of
  \<open>a\<close> and returns the elements at its first \<open>k\<close> positions; it raises \<open>ValueError\<close> when
  \<open>k\<close> exceeds the population. The permutation drawn is the argument \<open>perm\<close>.
\<close>

definition random_choice :: "nat list \<Rightarrow> 'a list \<Rightarrow> nat \<Rightarrow> error + 'a list" where
  "random_choice perm a k =
     (if length a < k then Inl ValueError else Inr (map (\<lambda>j. a ! j) (take k perm)))"

definition is_permutation :: "nat list \<Rightarrow> nat \<Rightarrow> bool" where
  "is_permutation perm n = (length perm = n \<and> distinct perm \<and> list_all (\<lambda>j. j < n) perm)"

section \<open>Collaborators of the engine\<close>

text \<open>
  The attributes of a \<open>Graphs\<close> object that the engine reads. The packed arrays are kept as
  the words copied to the device; the index arrays as the numbers they hold.
\<close>

record graphs =
  hypervector_size :: nat
  max_number_of_graph_nodes :: nat
  max_number_of_graph_node_chunks :: nat
  signature :: "nat ndarray"
  X :: "u32 list"
  number_of_graphs :: nat
  number_of_graph_nodes :: "nat list"
  node_index :: "nat list"
  edge_index :: "nat list"
  number_of_graph_node_edges :: "u32 list"
  edge :: "u32 list"

text \<open>The \<open>#define\<close> block that \<open>_init\<close> puts in front of every kernel source.\<close>

record parameters =
  CLASSES :: int
  CLAUSES :: nat
  LITERALS :: nat
  STATE_BITS :: nat
  BOOST_TRUE_POSITIVE_FEEDBACK :: int
  THRESHOLD :: int
  Q :: real
  MAX_INCLUDED_LITERALS :: nat
  NEGATIVE_CLAUSES :: int
  MAX_NODES :: nat
  MESSAGE_SIZE :: nat
  MESSAGE_BITS :: nat

text \<open>
  Modelled from the spec: the kernel sources (\<open>GraphTsetlinMachine.kernels\<close>) are not among
  the source files, so a compiled kernel is a function from the contents of the buffers it
  reads to the contents of the buffers it writes, following the data flow of sections 4.2
  to 4.4 and the barrier rule of section 5 (a phase reads buffers entirely written by
  earlier phases):
  \<^item> \<open>prepare\<close> and \<open>prepare_message_ta_state\<close> initialise the buffers they are given;
  \<open>prepare\<close> also advances the random generator;
  \<^item> \<open>calculate_messages\<close> reads the surface automata (the \<open>CLAUSES\<close> by chunks by
  \<open>STATE_BITS\<close> words of the store, see \<open>ta_words\<close>) and the node features, and writes the
  clause-node output and the include counts;
  \<^item> \<open>prepare_messages\<close> clears the accumulator, \<open>exchange_messages\<close> ORs into it,
  \<open>encode_messages\<close> packs it;
  \<^item> \<open>calculate_messages_conditional\<close> reads the message automata of the round, the
  current clause-node output and the packed messages, and writes the alternate output;
  \<^item> \<open>evaluate\<close> adds the weights (the \<open>CLASSES\<close> by \<open>CLAUSES\<close> words, see
  \<open>weight_words\<close>) of the satisfied clauses to the class sums it is given;
  \<^item> the feedback kernels draw from the random generator and update what they are given.
  \<open>compiled_with\<close> is the parameter block the module was compiled with.
\<close>

record kernels =
  compiled_with :: parameters
  prepare :: "devmem \<Rightarrow> devmem \<Rightarrow> devmem \<Rightarrow> devmem \<Rightarrow> devmem \<times> devmem \<times> devmem \<times> devmem"
  prepare_message_ta_state :: "devmem \<Rightarrow> devmem"
  calculate_messages :: "u32 list \<Rightarrow> nat \<Rightarrow> nat \<Rightarrow> devmem \<Rightarrow> devmem \<times> devmem"
  prepare_messages :: "nat \<Rightarrow> devmem"
  exchange_messages ::
    "nat \<Rightarrow> devmem \<Rightarrow> devmem \<Rightarrow> nat \<Rightarrow> nat \<Rightarrow> devmem \<Rightarrow> devmem \<Rightarrow> devmem \<Rightarrow> devmem"
  encode_messages :: "nat \<Rightarrow> devmem \<Rightarrow> devmem"
  calculate_messages_conditional ::
    "devmem \<Rightarrow> nat \<Rightarrow> devmem \<Rightarrow> devmem \<Rightarrow> devmem \<Rightarrow> devmem \<times> devmem"
  evaluate :: "devmem \<Rightarrow> u32 list \<Rightarrow> nat \<Rightarrow> devmem \<Rightarrow> devmem"
  select_clause_node :: "devmem \<Rightarrow> devmem \<Rightarrow> nat \<Rightarrow> devmem \<times> devmem"
  select_clause_updates ::
    "devmem \<Rightarrow> devmem \<Rightarrow> devmem \<Rightarrow> devmem \<Rightarrow> nat \<Rightarrow> devmem \<Rightarrow> devmem \<times> devmem \<times> devmem"
  update ::
    "devmem \<Rightarrow> real \<Rightarrow> devmem \<Rightarrow> nat \<Rightarrow> nat \<Rightarrow> devmem \<Rightarrow> devmem \<Rightarrow> devmem \<Rightarrow> devmem
      \<Rightarrow> devmem \<times> devmem \<times> devmem"
  update_message ::
    "devmem \<Rightarrow> real \<Rightarrow> devmem \<Rightarrow> nat \<Rightarrow> devmem \<Rightarrow> devmem \<Rightarrow> devmem \<Rightarrow> devmem
      \<Rightarrow> devmem \<times> devmem \<times> devmem"
  transform_gpu :: "devmem \<Rightarrow> nat \<Rightarrow> devmem"

text \<open>\<open>(n - 1) // 32 + 1\<close> with Python's floor division: 0 chunks for \<open>n = 0\<close>.\<close>

definition chunks :: "nat \<Rightarrow> nat" where
  "chunks n = nat ((int n - 1) div 32 + 1)"

definition ta_words :: "parameters \<Rightarrow> nat" where
  "ta_words p = CLAUSES p * chunks (LITERALS p) * STATE_BITS p"

definition weight_words :: "parameters \<Rightarrow> nat" where
  "weight_words p = nat (CLASSES p) * CLAUSES p"

text \<open>
  What the code gets from outside: the compiler (\<open>SourceModule\<close>), the contents of freshly
  allocated device memory (per attribute the allocation is made for, and position in a list
  of allocations) and of \<open>np.empty\<close> host memory.
\<close>

record env =
  SourceModule :: "parameters \<Rightarrow> kernels"
  mem_alloc :: "string \<Rightarrow> nat \<Rightarrow> devmem"
  np_empty :: "nat \<Rightarrow> int"

definition compile :: "env \<Rightarrow> parameters \<Rightarrow> kernels" where
  "compile E p = (SourceModule E p)\<lparr>compiled_with := p\<rparr>"

section \<open>The model object\<close>

text \<open>
  The device buffers that \<open>_init_fit\<close> and \<open>_score_init\<close> allocate for a graph set. The
  attributes \<open>encoded_X_train_gpu\<close>, \<open>encoded_X_test_gpu\<close> and so on are assigned together,
  so each group is one optional record; the field names drop \<open>_train\<close> and \<open>_test\<close>.
\<close>

record graph_buffers =
  encoded_X_gpu :: devmem
  current_clause_node_output_gpu :: devmem
  next_clause_node_output_gpu :: devmem
  clause_X_int_gpu :: devmem
  clause_X_gpu :: "devmem list"
  number_of_graph_node_edges_gpu :: devmem
  edge_gpu :: devmem

text \<open>
  The two clause-node-output allocations are passed around by reference; a reference names
  one of the two allocations of a group.
\<close>

datatype cno_ptr = Current_clause_node_output | Next_clause_node_output

definition deref :: "graph_buffers \<Rightarrow> cno_ptr \<Rightarrow> devmem" where
  "deref b p = (case p of Current_clause_node_output \<Rightarrow> current_clause_node_output_gpu b
                | Next_clause_node_output \<Rightarrow> next_clause_node_output_gpu b)"

definition assign :: "graph_buffers \<Rightarrow> cno_ptr \<Rightarrow> devmem \<Rightarrow> graph_buffers" where
  "assign b p v = (case p of Current_clause_node_output \<Rightarrow> b\<lparr>current_clause_node_output_gpu := v\<rparr>
                   | Next_clause_node_output \<Rightarrow> b\<lparr>next_clause_node_output_gpu := v\<rparr>)"

text \<open>The kernel launches, in the order made, with the clause-node-output references passed.\<close>

datatype launch =
    Prepare
  | Prepare_message_ta_state nat
  | Calculate_messages cno_ptr
  | Prepare_messages
  | Exchange_messages cno_ptr
  | Encode_messages nat
  | Calculate_messages_conditional nat cno_ptr cno_ptr
  | Evaluate cno_ptr
  | Select_clause_node cno_ptr
  | Select_clause_updates
  | Update
  | Update_message nat
  | Transform cno_ptr

text \<open>
  The attributes of a \<open>CommonTsetlinMachine\<close>. An attribute that \<open>__init__\<close> does not assign
  is optional (\<open>None\<close>: not assigned yet). \<open>max_y\<close> and \<open>min_y\<close> hold Python's \<open>None\<close> or a
  number. \<open>g_state\<close> is the state of the module's random generator \<open>g\<close>; \<open>launches\<close> records
  the kernel launches made so far and is read by no operation. \<open>grid\<close> and \<open>block\<close> are left out.
\<close>

record model =
  number_of_clauses :: nat
  number_of_clause_chunks :: nat
  T :: int
  depth :: int
  s :: "real list"
  q :: real
  max_included_literals :: "nat option"
  boost_true_positive_feedback :: int
  number_of_state_bits :: nat
  message_size :: nat
  message_bits :: nat
  message_literals :: nat
  double_hashing :: bool
  graphs_signature_train :: "nat ndarray"
  graphs_signature_test :: "nat ndarray"
  encoded_Y :: "int ndarray"
  ta_state :: "u32 list"
  message_ta_state :: "u32 list"
  clause_weights :: "int list"
  hypervectors :: "nat list list"
  initialized :: bool
  negative_clauses :: "int option"
  number_of_outputs :: "int option"
  max_y :: "int option option"
  min_y :: "int option option"
  number_of_features :: "nat option"
  number_of_literals :: "nat option"
  number_of_ta_chunks :: "nat option"
  number_of_message_features :: "nat option"
  number_of_message_literals :: "nat option"
  number_of_message_chunks :: "nat option"
  module :: "kernels option"
  ta_state_gpu :: "devmem option"
  message_ta_state_gpu :: "devmem list option"
  clause_weights_gpu :: "devmem option"
  clause_weights_dummy_gpu :: "devmem option"
  class_sum_gpu :: "devmem option"
  clause_node_gpu :: "devmem option"
  number_of_include_actions :: "devmem option"
  hypervectors_gpu :: "devmem option"
  train_gpu :: "graph_buffers option"
  class_clause_update_gpu :: "devmem option"
  encoded_Y_gpu :: "devmem option"
  test_gpu :: "graph_buffers option"
  g_state :: devmem
  launches :: "launch list"

section \<open>Construction\<close>

fun mapE :: "('a \<Rightarrow> error + 'b) \<Rightarrow> 'a list \<Rightarrow> error + 'b list" where
  "mapE f [] = Inr []"
| "mapE f (x # xs) = ebind (f x) (\<lambda>y. ebind (mapE f xs) (\<lambda>ys. Inr (y # ys)))"

fun foldE :: "('a \<Rightarrow> 'b \<Rightarrow> error + 'b) \<Rightarrow> 'a list \<Rightarrow> 'b \<Rightarrow> error + 'b" where
  "foldE f [] st = Inr st"
| "foldE f (x # xs) st = ebind (f x st) (foldE f xs)"

text \<open>The argument \<open>s\<close> of the constructor: a number, or a tuple with one entry per layer.\<close>

datatype s_arg = Number real | Tuple "real list"

text \<open>
  Storing a Python integer in an element of a \<open>uint32\<close> array: NumPy raises
  \<open>OverflowError\<close> when the integer does not fit.
\<close>

definition uint32_item :: "nat \<Rightarrow> error + nat" where
  "uint32_item v = (if int v < 2 ^ 32 then Inr v else Inl OverflowError)"

text \<open>
  \<open>CommonTsetlinMachine.__init__\<close>. \<open>np_random i\<close> is the permutation that numpy's generator
  draws for row \<open>i\<close> of the hypervector table and \<open>g0\<close> the state of the module's device
  generator. The table is a \<open>uint32\<close> array: its entries are numbers below \<open>2 ^ 32\<close>. With
  double hashing the two entries of a row are Python integers stored one after the other;
  without it they are drawn from \<open>np.arange(message_size, dtype=np.uint32)\<close>, which NumPy
  fills in \<open>uint32\<close> arithmetic.
\<close>

definition CommonTsetlinMachine_init ::
  "(nat \<Rightarrow> nat list) \<Rightarrow> devmem \<Rightarrow> nat \<Rightarrow> int \<Rightarrow> s_arg \<Rightarrow> real \<Rightarrow> nat option \<Rightarrow> int \<Rightarrow> nat \<Rightarrow> int
     \<Rightarrow> nat \<Rightarrow> nat \<Rightarrow> bool \<Rightarrow> error + model" where
  "CommonTsetlinMachine_init np_random g0 number_of_clauses' T' s' q' max_included_literals'
       boost_true_positive_feedback' number_of_state_bits' depth' message_size' message_bits'
       double_hashing' =
     (let self = \<lparr>
            number_of_clauses = number_of_clauses',
            number_of_clause_chunks = chunks number_of_clauses',
            T = T',
            depth = depth',
            s = (case s' of Number x \<Rightarrow> replicate (nat depth') x | Tuple xs \<Rightarrow> xs),
            q = q',
            max_included_literals = max_included_literals',
            boost_true_positive_feedback = boost_true_positive_feedback',
            number_of_state_bits = number_of_state_bits',
            message_size = message_size',
            message_bits = message_bits',
            message_literals = message_size' * 2,
            double_hashing = double_hashing',
            graphs_signature_train = np_empty_array,
            graphs_signature_test = np_empty_array,
            encoded_Y = np_empty_array,
            ta_state = [],
            message_ta_state = [],
            clause_weights = [],
            hypervectors = [],
            initialized = False,
            negative_clauses = None,
            number_of_outputs = None,
            max_y = None,
            min_y = None,
            number_of_features = None,
            number_of_literals = None,
            number_of_ta_chunks = None,
            number_of_message_features = None,
            number_of_message_literals = None,
            number_of_message_chunks = None,
            module = None,
            ta_state_gpu = None,
            message_ta_state_gpu = None,
            clause_weights_gpu = None,
            clause_weights_dummy_gpu = None,
            class_sum_gpu = None,
            clause_node_gpu = None,
            number_of_include_actions = None,
            hypervectors_gpu = None,
            train_gpu = None,
            class_clause_update_gpu = None,
            encoded_Y_gpu = None,
            test_gpu = None,
            g_state = g0,
            launches = [] \<rparr>
      in if double_hashing self then
           (let self = self\<lparr>message_bits := 2\<rparr>
            in ebind (prevprime (message_size self)) (\<lambda>prime.
               ebind (mapE (\<lambda>i.
                        ebind (uint32_item (i mod message_size self)) (\<lambda>first.
                        ebind (uint32_item (message_size self + prime - (i mod prime)))
                          (\<lambda>second. Inr [first, second])))
                        [0..<number_of_clauses self]) (\<lambda>rows.
                 Inr (self\<lparr>hypervectors := rows\<rparr>))))
         else
           (let indexes = map (\<lambda>j. unat (of_nat j :: u32)) [0..<message_size self]
            in ebind (mapE (\<lambda>i. random_choice (np_random i) indexes (message_bits self))
                        [0..<number_of_clauses self]) (\<lambda>rows.
                 Inr (self\<lparr>hypervectors := rows\<rparr>))))"

text \<open>The three subclasses call the constructor above and set \<open>negative_clauses\<close>.\<close>

definition MultiClassGraphTsetlinMachine_init ::
  "(nat \<Rightarrow> nat list) \<Rightarrow> devmem \<Rightarrow> nat \<Rightarrow> int \<Rightarrow> s_arg \<Rightarrow> real \<Rightarrow> nat option \<Rightarrow> int \<Rightarrow> nat \<Rightarrow> int
     \<Rightarrow> nat \<Rightarrow> nat \<Rightarrow> bool \<Rightarrow> error + model" where
  "MultiClassGraphTsetlinMachine_init np_random g0 nc T' s' q' mil btpf nsb depth' ms mb dh =
     ebind (CommonTsetlinMachine_init np_random g0 nc T' s' q' mil btpf nsb depth' ms mb dh)
       (\<lambda>self. Inr (self\<lparr>negative_clauses := Some 1\<rparr>))"

definition MultiOutputGraphTsetlinMachine_init ::
  "(nat \<Rightarrow> nat list) \<Rightarrow> devmem \<Rightarrow> nat \<Rightarrow> int \<Rightarrow> s_arg \<Rightarrow> real \<Rightarrow> nat option \<Rightarrow> int \<Rightarrow> nat \<Rightarrow> int
     \<Rightarrow> nat \<Rightarrow> nat \<Rightarrow> bool \<Rightarrow> error + model" where
  "MultiOutputGraphTsetlinMachine_init np_random g0 nc T' s' q' mil btpf nsb depth' ms mb dh =
     ebind (CommonTsetlinMachine_init np_random g0 nc T' s' q' mil btpf nsb depth' ms mb dh)
       (\<lambda>self. Inr (self\<lparr>negative_clauses := Some 1\<rparr>))"

definition GraphTsetlinMachine_init ::
  "(nat \<Rightarrow> nat list) \<Rightarrow> devmem \<Rightarrow> nat \<Rightarrow> int \<Rightarrow> s_arg \<Rightarrow> real \<Rightarrow> nat option \<Rightarrow> int \<Rightarrow> nat \<Rightarrow> int
     \<Rightarrow> nat \<Rightarrow> nat \<Rightarrow> bool \<Rightarrow> error + model" where
  "GraphTsetlinMachine_init np_random g0 nc T' s' q' mil btpf nsb depth' ms mb dh =
     ebind (CommonTsetlinMachine_init np_random g0 nc T' s' q' mil btpf nsb depth' ms mb dh)
       (\<lambda>self. Inr (self\<lparr>negative_clauses := Some 1\<rparr>))"

section \<open>Initialisation of the device state\<close>

definition allocate_gpu_memory :: "env \<Rightarrow> model \<Rightarrow> error + model" where
  "allocate_gpu_memory E self =
     ebind (attr (number_of_ta_chunks self)) (\<lambda>_.
     ebind (if 0 < nat (depth self - 1) then attr (number_of_message_chunks self) else Inr 0) (\<lambda>_.
     ebind (attr (number_of_outputs self)) (\<lambda>_.
       Inr (self\<lparr>
         ta_state_gpu := Some (mem_alloc E ''ta_state_gpu'' 0),
         message_ta_state_gpu :=
           Some (map (mem_alloc E ''message_ta_state_gpu'') [0..<nat (depth self - 1)]),
         clause_weights_gpu := Some (mem_alloc E ''clause_weights_gpu'' 0),
         clause_weights_dummy_gpu := Some (mem_alloc E ''clause_weights_dummy_gpu'' 0),
         class_sum_gpu := Some (mem_alloc E ''class_sum_gpu'' 0),
         clause_node_gpu := Some (mem_alloc E ''clause_node_gpu'' 0),
         number_of_include_actions := Some (mem_alloc E ''number_of_include_actions'' 0),
         hypervectors_gpu :=
           Some (memcpy_htod (mem_alloc E ''hypervectors_gpu'' 0)
                   (map of_nat (concat (hypervectors self))))\<rparr>))))"

definition p_init :: "env \<Rightarrow> model \<Rightarrow> graphs \<Rightarrow> error + model" where
  "p_init E self g =
     (let self = self\<lparr>number_of_features := Some (hypervector_size g),
                     number_of_literals := Some (hypervector_size g * 2),
                     number_of_ta_chunks := Some (chunks (hypervector_size g * 2)),
                     number_of_message_features := Some (message_size self),
                     number_of_message_literals := Some (message_size self * 2),
                     number_of_message_chunks := Some (chunks (message_size self * 2))\<rparr>;
          self = (if max_included_literals self = None
                  then self\<lparr>max_included_literals := Some (hypervector_size g * 2)\<rparr> else self)
      in ebind (attr (number_of_outputs self)) (\<lambda>outputs.
         ebind (attr (negative_clauses self)) (\<lambda>negative.
         ebind (attr (max_included_literals self)) (\<lambda>included.
           let parameters = \<lparr>
                 CLASSES = outputs,
                 CLAUSES = number_of_clauses self,
                 LITERALS = hypervector_size g * 2,
                 STATE_BITS = number_of_state_bits self,
                 BOOST_TRUE_POSITIVE_FEEDBACK = boost_true_positive_feedback self,
                 THRESHOLD = T self,
                 Q = q self,
                 MAX_INCLUDED_LITERALS = included,
                 NEGATIVE_CLAUSES = negative,
                 MAX_NODES = max_number_of_graph_nodes g,
                 MESSAGE_SIZE = message_size self,
                 MESSAGE_BITS = message_bits self \<rparr>
           in ebind (allocate_gpu_memory E (self\<lparr>module := Some (compile E parameters)\<rparr>))
                (\<lambda>self. Inr (self\<lparr>initialized := True\<rparr>))))))"

text \<open>
  The launch \<open>self.prepare(g.state, self.ta_state_gpu, self.clause_weights_gpu,
  self.class_sum_gpu)\<close> and the launch of \<open>prepare_message_ta_state\<close> on layer \<open>d\<close>.
\<close>

definition launch_prepare :: "model \<Rightarrow> error + model" where
  "launch_prepare self =
     ebind (attr (module self)) (\<lambda>K.
     ebind (attr (ta_state_gpu self)) (\<lambda>ta.
     ebind (attr (clause_weights_gpu self)) (\<lambda>w.
     ebind (attr (class_sum_gpu self)) (\<lambda>cs.
       case prepare K (g_state self) ta w cs of (g', ta', w', cs') \<Rightarrow>
         Inr (self\<lparr>g_state := g', ta_state_gpu := Some ta', clause_weights_gpu := Some w',
                   class_sum_gpu := Some cs', launches := launches self @ [Prepare]\<rparr>)))))"

definition launch_prepare_message_ta_state :: "nat \<Rightarrow> model \<Rightarrow> error + model" where
  "launch_prepare_message_ta_state d self =
     ebind (attr (module self)) (\<lambda>K.
     ebind (attr (message_ta_state_gpu self)) (\<lambda>layers.
     ebind (item layers d) (\<lambda>layer.
       Inr (self\<lparr>message_ta_state_gpu := Some (layers[d := prepare_message_ta_state K layer]),
                 launches := launches self @ [Prepare_message_ta_state d]\<rparr>))))"

text \<open>
  \<open>_init_fit\<close> is three conditionals in a row: initialise a new model or reset an initialised
  one, bind the training graph set, bind the encoded targets.
\<close>

definition init_or_reset :: "env \<Rightarrow> model \<Rightarrow> graphs \<Rightarrow> bool \<Rightarrow> error + model" where
  "init_or_reset E self g incremental =
     (if \<not> initialized self then
        ebind (p_init E self g) (\<lambda>self.
        ebind (launch_prepare self) (\<lambda>self.
          foldE launch_prepare_message_ta_state [0..<nat (depth self - 1)] self))
      else if incremental = False then launch_prepare self
      else Inr self)"

definition bind_train_graphs :: "env \<Rightarrow> model \<Rightarrow> graphs \<Rightarrow> error + model" where
  "bind_train_graphs E self g =
     (if \<not> np_array_equal (graphs_signature_train self) (signature g) then
        ebind (if 0 < nat (depth self - 1) then attr (number_of_message_chunks self) else Inr 0) (\<lambda>_.
        ebind (attr (number_of_outputs self)) (\<lambda>_.
          Inr (self\<lparr>
            graphs_signature_train := signature g,
            train_gpu := Some \<lparr>
              encoded_X_gpu = memcpy_htod (mem_alloc E ''encoded_X_train_gpu'' 0) (X g),
              current_clause_node_output_gpu =
                mem_alloc E ''current_clause_node_output_train_gpu'' 0,
              next_clause_node_output_gpu = mem_alloc E ''next_clause_node_output_train_gpu'' 0,
              clause_X_int_gpu = mem_alloc E ''clause_X_int_train_gpu'' 0,
              clause_X_gpu = map (mem_alloc E ''clause_X_train_gpu'') [0..<nat (depth self - 1)],
              number_of_graph_node_edges_gpu =
                memcpy_htod (mem_alloc E ''number_of_graph_node_edges_train_gpu'' 0)
                  (number_of_graph_node_edges g),
              edge_gpu = (if edge g \<noteq> []
                          then memcpy_htod (mem_alloc E ''edge_train_gpu'' 0) (edge g)
                          else mem_alloc E ''edge_train_gpu'' 0) \<rparr>,
            class_clause_update_gpu := Some (mem_alloc E ''class_clause_update_gpu'' 0)\<rparr>)))
      else Inr self)"

definition bind_encoded_Y :: "env \<Rightarrow> model \<Rightarrow> int ndarray \<Rightarrow> model" where
  "bind_encoded_Y E self encoded_Y' =
     (if \<not> np_array_equal (encoded_Y self) encoded_Y' then
        self\<lparr>encoded_Y := encoded_Y',
             encoded_Y_gpu := Some (memcpy_htod (mem_alloc E ''encoded_Y_gpu'' 0)
                                      (map word_of_int (data encoded_Y')))\<rparr>
      else self)"

definition p_init_fit :: "env \<Rightarrow> model \<Rightarrow> graphs \<Rightarrow> int ndarray \<Rightarrow> bool \<Rightarrow> error + model" where
  "p_init_fit E self g encoded_Y' incremental =
     ebind (init_or_reset E self g incremental) (\<lambda>self.
     ebind (bind_train_graphs E self g) (\<lambda>self.
       Inr (bind_encoded_Y E self encoded_Y')))"

section \<open>Evaluation\<close>

text \<open>
  One pass of the loop \<open>for depth in range(self.depth-1)\<close> of \<open>_evaluate\<close>: the four launches
  and the exchange of the two references. The state is the pair of references, the model
  and the buffers of the graph set.
\<close>

definition message_round ::
  "kernels \<Rightarrow> nat \<Rightarrow> nat \<Rightarrow> nat \<Rightarrow> nat \<Rightarrow> cno_ptr \<times> cno_ptr \<times> model \<times> graph_buffers
     \<Rightarrow> error + cno_ptr \<times> cno_ptr \<times> model \<times> graph_buffers" where
  "message_round K number_of_nodes node_idx edge_idx d st =
     (case st of (current_clause_node_output, next_clause_node_output, self, b) \<Rightarrow>
        ebind (attr (hypervectors_gpu self)) (\<lambda>hv.
        ebind (item (clause_X_gpu b) d) (\<lambda>_.
        ebind (attr (message_ta_state_gpu self)) (\<lambda>layers.
        ebind (item layers d) (\<lambda>layer.
        ebind (attr (number_of_include_actions self)) (\<lambda>include_actions.
          let clause_X_int = prepare_messages K number_of_nodes;
              clause_X_int = exchange_messages K number_of_nodes hv
                               (deref b current_clause_node_output) node_idx edge_idx
                               (number_of_graph_node_edges_gpu b) (edge_gpu b) clause_X_int;
              clause_X = encode_messages K number_of_nodes clause_X_int
          in case calculate_messages_conditional K layer number_of_nodes
                    (deref b current_clause_node_output) include_actions clause_X of
               (out, include_actions') \<Rightarrow>
                 Inr (next_clause_node_output, current_clause_node_output,
                      self\<lparr>number_of_include_actions := Some include_actions',
                           launches := launches self @
                             [Prepare_messages,
                              Exchange_messages current_clause_node_output,
                              Encode_messages d,
                              Calculate_messages_conditional d current_clause_node_output
                                next_clause_node_output]\<rparr>,
                      (assign b next_clause_node_output out)
                        \<lparr>clause_X_int_gpu := clause_X_int,
                         clause_X_gpu := (clause_X_gpu b)[d := clause_X]\<rparr>)))))))"

text \<open>
  \<open>_evaluate\<close>. The buffers of the graph set (\<open>number_of_graph_node_edges\<close>, \<open>edge\<close>,
  \<open>clause_X_int\<close>, \<open>clause_X\<close>, \<open>encoded_X\<close>) come as the group \<open>b\<close>; the two clause-node-output
  buffers come as references into it. The result is the reference the method returns.
\<close>

definition p_evaluate ::
  "model \<Rightarrow> graph_buffers \<Rightarrow> nat \<Rightarrow> nat \<Rightarrow> nat \<Rightarrow> cno_ptr \<Rightarrow> cno_ptr
     \<Rightarrow> error + cno_ptr \<times> model \<times> graph_buffers" where
  "p_evaluate self b number_of_nodes node_idx edge_idx current_clause_node_output
       next_clause_node_output =
     ebind (attr (number_of_outputs self)) (\<lambda>outputs.
     if outputs < 0 then Inl ValueError else
     ebind (attr (class_sum_gpu self)) (\<lambda>cs.
     let self = self\<lparr>class_sum_gpu := Some (memcpy_htod cs (replicate (nat outputs) 0))\<rparr> in
     ebind (attr (module self)) (\<lambda>K.
     ebind (attr (ta_state_gpu self)) (\<lambda>ta.
     ebind (attr (number_of_include_actions self)) (\<lambda>_.
     case calculate_messages K (memcpy_dtoh (ta_words (compiled_with K)) ta) number_of_nodes
            node_idx (encoded_X_gpu b) of
       (out, include_actions) \<Rightarrow>
     let self = self\<lparr>number_of_include_actions := Some include_actions,
                     launches := launches self @ [Calculate_messages current_clause_node_output]\<rparr>;
         b = assign b current_clause_node_output out in
     ebind (foldE (message_round K number_of_nodes node_idx edge_idx) [0..<nat (depth self - 1)]
              (current_clause_node_output, next_clause_node_output, self, b))
       (\<lambda>(current_clause_node_output, next_clause_node_output, self, b).
     ebind (attr (clause_weights_gpu self)) (\<lambda>w.
     ebind (attr (class_sum_gpu self)) (\<lambda>cs.
       Inr (current_clause_node_output,
            self\<lparr>class_sum_gpu :=
                   Some (evaluate K (deref b current_clause_node_output)
                           (memcpy_dtoh (weight_words (compiled_with K)) w) number_of_nodes cs),
                 launches := launches self @ [Evaluate current_clause_node_output]\<rparr>,
            b)))))))))"

section \<open>Training\<close>

text \<open>The launch of \<open>update_message\<close> on layer \<open>d\<close>, for a graph of \<open>number_of_nodes\<close> nodes.\<close>

definition launch_update_message :: "nat \<Rightarrow> nat \<Rightarrow> model \<Rightarrow> error + model" where
  "launch_update_message number_of_nodes d self =
     ebind (attr (module self)) (\<lambda>K.
     ebind (item (s self) (d + 1)) (\<lambda>s_d.
     ebind (attr (message_ta_state_gpu self)) (\<lambda>layers.
     ebind (item layers d) (\<lambda>layer.
     ebind (attr (clause_node_gpu self)) (\<lambda>clause_node.
     ebind (attr (number_of_include_actions self)) (\<lambda>include_actions.
     ebind (attr (train_gpu self)) (\<lambda>b.
     ebind (item (clause_X_gpu b) d) (\<lambda>clause_X.
     ebind (attr (class_clause_update_gpu self)) (\<lambda>class_clause_update.
       case update_message K (g_state self) s_d layer number_of_nodes clause_node
              include_actions clause_X class_clause_update of
         (g', layer', include_actions') \<Rightarrow>
           Inr (self\<lparr>g_state := g',
                     message_ta_state_gpu := Some (layers[d := layer']),
                     number_of_include_actions := Some include_actions',
                     launches := launches self @ [Update_message d]\<rparr>))))))))))"

text \<open>
  The body of the loop over the examples in \<open>_fit\<close>; \<open>outputs\<close> is the length of the host
  array \<open>class_sum\<close>.
\<close>

definition fit_example :: "graphs \<Rightarrow> nat \<Rightarrow> nat \<Rightarrow> model \<Rightarrow> error + model" where
  "fit_example g outputs e self =
     ebind (attr (class_sum_gpu self)) (\<lambda>cs.
     let self = self\<lparr>class_sum_gpu := Some (memcpy_htod cs (replicate outputs 0))\<rparr> in
     ebind (item (number_of_graph_nodes g) e) (\<lambda>number_of_nodes.
     ebind (item (node_index g) e) (\<lambda>node_idx.
     ebind (item (edge_index g) node_idx) (\<lambda>edge_idx.
     ebind (attr (train_gpu self)) (\<lambda>b.
     ebind (p_evaluate self b number_of_nodes node_idx edge_idx
              Current_clause_node_output Next_clause_node_output)
       (\<lambda>(current_clause_node_output, self, b).
     let self = self\<lparr>train_gpu := Some b\<rparr> in
     ebind (attr (module self)) (\<lambda>K.
     ebind (attr (clause_node_gpu self)) (\<lambda>_.
     case select_clause_node K (g_state self) (deref b current_clause_node_output)
            number_of_nodes of
       (g', clause_node) \<Rightarrow>
     let self = self\<lparr>g_state := g', clause_node_gpu := Some clause_node,
                     launches := launches self @ [Select_clause_node current_clause_node_output]\<rparr> in
     ebind (attr (clause_weights_gpu self)) (\<lambda>w.
     ebind (attr (class_sum_gpu self)) (\<lambda>cs.
     ebind (attr (encoded_Y_gpu self)) (\<lambda>encoded.
     ebind (attr (class_clause_update_gpu self)) (\<lambda>_.
     case select_clause_updates K (g_state self) w cs encoded e clause_node of
       (g', w', class_clause_update) \<Rightarrow>
     let self = self\<lparr>g_state := g', clause_weights_gpu := Some w',
                     class_clause_update_gpu := Some class_clause_update,
                     launches := launches self @ [Select_clause_updates]\<rparr> in
     ebind (item (s self) 0) (\<lambda>s_0.
     ebind (attr (ta_state_gpu self)) (\<lambda>ta.
     ebind (attr (number_of_include_actions self)) (\<lambda>include_actions.
     case update K (g_state self) s_0 ta number_of_nodes node_idx clause_node include_actions
            (encoded_X_gpu b) class_clause_update of
       (g', ta', include_actions') \<Rightarrow>
     let self = self\<lparr>g_state := g', ta_state_gpu := Some ta',
                     number_of_include_actions := Some include_actions',
                     launches := launches self @ [Update]\<rparr> in
     foldE (launch_update_message number_of_nodes) [0..<nat (depth self - 1)] self
     )))))))))))))))"

definition p_fit :: "env \<Rightarrow> model \<Rightarrow> graphs \<Rightarrow> int ndarray \<Rightarrow> nat \<Rightarrow> bool \<Rightarrow> error + model" where
  "p_fit E self g encoded_Y' epochs incremental =
     ebind (p_init_fit E self g encoded_Y' incremental) (\<lambda>self.
     ebind (attr (number_of_outputs self)) (\<lambda>outputs.
     if outputs < 0 then Inl ValueError else
     ebind (foldE (\<lambda>epoch. foldE (fit_example g (nat outputs)) [0..<number_of_graphs g])
              [0..<epochs] self) (\<lambda>self.
       Inr (self\<lparr>ta_state := [], clause_weights := []\<rparr>))))"

section \<open>Scoring and transforming\<close>

definition p_score_init :: "env \<Rightarrow> model \<Rightarrow> graphs \<Rightarrow> error + model" where
  "p_score_init E self g =
     (if \<not> initialized self then Inl (SystemExit (- 1))
      else if \<not> np_array_equal (graphs_signature_test self) (signature g) then
        ebind (attr (number_of_message_literals self)) (\<lambda>_.
        ebind (if 0 < nat (depth self - 1) then attr (number_of_message_chunks self) else Inr 0) (\<lambda>_.
          Inr (self\<lparr>
            graphs_signature_test := signature g,
            test_gpu := Some \<lparr>
              encoded_X_gpu = memcpy_htod (mem_alloc E ''encoded_X_test_gpu'' 0) (X g),
              current_clause_node_output_gpu =
                mem_alloc E ''current_clause_node_output_test_gpu'' 0,
              next_clause_node_output_gpu = mem_alloc E ''next_clause_node_output_test_gpu'' 0,
              clause_X_int_gpu = mem_alloc E ''clause_X_int_test_gpu'' 0,
              clause_X_gpu = map (mem_alloc E ''clause_X_test_gpu'') [0..<nat (depth self - 1)],
              number_of_graph_node_edges_gpu =
                memcpy_htod (mem_alloc E ''number_of_graph_node_edges_test_gpu'' 0)
                  (number_of_graph_node_edges g),
              edge_gpu = (if edge g \<noteq> []
                          then memcpy_htod (mem_alloc E ''edge_test_gpu'' 0) (edge g)
                          else mem_alloc E ''edge_test_gpu'' 0) \<rparr>\<rparr>)))
      else Inr self)"

text \<open>
  The body of the loop over the examples in \<open>_score\<close>; \<open>outputs\<close> is the number of columns
  of the host array \<open>class_sum\<close>.
\<close>

definition score_example ::
  "graphs \<Rightarrow> nat \<Rightarrow> nat \<Rightarrow> int ndarray \<times> model \<Rightarrow> error + int ndarray \<times> model" where
  "score_example g outputs e st =
     (case st of (class_sum, self) \<Rightarrow>
        ebind (attr (class_sum_gpu self)) (\<lambda>cs.
        let self = self\<lparr>class_sum_gpu :=
                         Some (memcpy_htod cs (map word_of_int (row outputs class_sum e)))\<rparr> in
        ebind (item (number_of_graph_nodes g) e) (\<lambda>number_of_nodes.
        ebind (item (node_index g) e) (\<lambda>node_idx.
        ebind (item (edge_index g) node_idx) (\<lambda>edge_idx.
        ebind (attr (test_gpu self)) (\<lambda>b.
        ebind (p_evaluate self b number_of_nodes node_idx edge_idx
                 Current_clause_node_output Next_clause_node_output)
          (\<lambda>(current_clause_node_output, self, b).
        ebind (attr (class_sum_gpu self)) (\<lambda>cs.
          Inr (set_row outputs class_sum e (map sint (memcpy_dtoh outputs cs)),
               self\<lparr>test_gpu := Some b\<rparr>)))))))))"

text \<open>\<open>_score\<close> returns the array of class sums; the model it leaves behind comes with it.\<close>

definition p_score :: "env \<Rightarrow> model \<Rightarrow> graphs \<Rightarrow> error + int ndarray \<times> model" where
  "p_score E self g =
     ebind (p_score_init E self g) (\<lambda>self.
     ebind (attr (number_of_outputs self)) (\<lambda>outputs.
     if outputs < 0 then Inl ValueError else
       foldE (score_example g (nat outputs)) [0..<number_of_graphs g]
         (np_zeros2 (number_of_graphs g) (nat outputs), self)))"

definition transform_example ::
  "env \<Rightarrow> graphs \<Rightarrow> nat \<Rightarrow> nat \<Rightarrow> (int ndarray \<times> int ndarray) \<times> model
     \<Rightarrow> error + (int ndarray \<times> int ndarray) \<times> model" where
  "transform_example E g outputs e st =
     (case st of ((transformed_X, class_sum), self) \<Rightarrow>
        ebind (attr (class_sum_gpu self)) (\<lambda>cs.
        let self = self\<lparr>class_sum_gpu :=
                         Some (memcpy_htod cs (map word_of_int (row outputs class_sum e)))\<rparr> in
        ebind (item (number_of_graph_nodes g) e) (\<lambda>number_of_nodes.
        ebind (item (node_index g) e) (\<lambda>node_idx.
        ebind (item (edge_index g) node_idx) (\<lambda>edge_idx.
        ebind (attr (test_gpu self)) (\<lambda>b.
        ebind (p_evaluate self b number_of_nodes node_idx edge_idx
                 Current_clause_node_output Next_clause_node_output)
          (\<lambda>(current_clause_node_output, self, b).
        ebind (attr (module self)) (\<lambda>K.
        let transformed_X_sample_gpu =
              transform_gpu K (deref b current_clause_node_output) number_of_nodes;
            self = self\<lparr>launches := launches self @ [Transform current_clause_node_output]\<rparr> in
        ebind (attr (class_sum_gpu self)) (\<lambda>cs.
          Inr ((set_row (number_of_clauses self) transformed_X e
                  (map sint (memcpy_dtoh (number_of_clauses self) transformed_X_sample_gpu)),
                set_row outputs class_sum e (map sint (memcpy_dtoh outputs cs))),
               self\<lparr>test_gpu := Some b\<rparr>))))))))))"

definition transform ::
  "env \<Rightarrow> model \<Rightarrow> graphs \<Rightarrow> error + (int ndarray \<times> int ndarray) \<times> model" where
  "transform E self g =
     ebind (p_score_init E self g) (\<lambda>self.
     ebind (attr (number_of_outputs self)) (\<lambda>outputs.
     if outputs < 0 then Inl ValueError else
       foldE (transform_example E g (nat outputs)) [0..<number_of_graphs g]
         ((np_zeros2 (number_of_graphs g) (number_of_clauses self),
           np_zeros2 (number_of_graphs g) (nat outputs)), self)))"

section \<open>Export and import of the state\<close>

type_synonym state =
  "u32 list \<times> int list \<times> int \<times> nat \<times> nat \<times> int \<times> nat \<times> nat \<times> int option \<times> int option"

text \<open>\<open>get_state\<close> returns the tuple and leaves the downloaded arrays in the model.\<close>

definition get_state :: "model \<Rightarrow> error + state \<times> model" where
  "get_state self =
     ebind
       (if clause_weights self = [] then
          ebind (attr (number_of_ta_chunks self)) (\<lambda>ta_chunks.
          ebind (attr (ta_state_gpu self)) (\<lambda>ta.
          ebind (attr (number_of_outputs self)) (\<lambda>outputs.
          if outputs < 0 then Inl ValueError else
          ebind (attr (clause_weights_gpu self)) (\<lambda>w.
            Inr (self\<lparr>
              ta_state := memcpy_dtoh
                (number_of_clauses self * ta_chunks * number_of_state_bits self) ta,
              clause_weights := map sint
                (memcpy_dtoh (nat outputs * number_of_clauses self) w)\<rparr>)))))
        else Inr self) (\<lambda>self.
     ebind (attr (number_of_outputs self)) (\<lambda>outputs.
     ebind (attr (number_of_literals self)) (\<lambda>literals.
     ebind (attr (number_of_ta_chunks self)) (\<lambda>ta_chunks.
     ebind (attr (min_y self)) (\<lambda>min_y'.
     ebind (attr (max_y self)) (\<lambda>max_y'.
       Inr ((ta_state self, clause_weights self, outputs, number_of_clauses self, literals,
             depth self, number_of_state_bits self, ta_chunks, min_y', max_y'), self)))))))"

definition set_state :: "env \<Rightarrow> model \<Rightarrow> state \<Rightarrow> model" where
  "set_state E self st =
     (case st of (state0, state1, state2, state3, state4, state5, state6, state7, state8, state9) \<Rightarrow>
        self\<lparr>number_of_outputs := Some state2,
             number_of_clauses := state3,
             number_of_literals := Some state4,
             depth := state5,
             number_of_state_bits := state6,
             number_of_ta_chunks := Some state7,
             min_y := Some state8,
             max_y := Some state9,
             ta_state_gpu := Some (memcpy_htod (mem_alloc E ''ta_state_gpu'' 0) state0),
             clause_weights_gpu :=
               Some (memcpy_htod (mem_alloc E ''clause_weights_gpu'' 0) (map word_of_int state1)),
             graphs_signature_train := np_empty_array,
             graphs_signature_test := np_empty_array,
             encoded_Y := np_empty_array,
             ta_state := [],
             clause_weights := []\<rparr>)"

section \<open>The three label codecs\<close>

text \<open>\<open>np.max\<close> of a one-dimensional array; it raises \<open>ValueError\<close> on an empty one.\<close>

definition np_max :: "int list \<Rightarrow> error + int" where
  "np_max ys = (case ys of [] \<Rightarrow> Inl ValueError | y # ys' \<Rightarrow> Inr (fold max ys' y))"

text \<open>\<open>np.where(Y == c, a, b)\<close> on the elements of an array.\<close>

definition np_where_eq :: "int list \<Rightarrow> int \<Rightarrow> int \<Rightarrow> int \<Rightarrow> int list" where
  "np_where_eq ys c a b = map (\<lambda>y. if y = c then a else b) ys"

text \<open>
  The assignment \<open>a[:,i] = xs\<close> to column \<open>i\<close> of an \<open>np.int32\<close> array with \<open>k\<close> columns, one
  element per row.
\<close>

definition set_column :: "nat \<Rightarrow> int ndarray \<Rightarrow> nat \<Rightarrow> int list \<Rightarrow> int ndarray" where
  "set_column k a i xs =
     a\<lparr>data := fold (\<lambda>j d. d[j * k + i := int32 (xs ! j)]) [0..<length xs] (data a)\<rparr>"

text \<open>The target array that \<open>MultiClassGraphTsetlinMachine.fit\<close> builds column by column.\<close>

definition multiclass_encoded_Y :: "env \<Rightarrow> int \<Rightarrow> int list \<Rightarrow> nat \<Rightarrow> int ndarray" where
  "multiclass_encoded_Y E T' Y outputs =
     fold (\<lambda>i encoded. set_column outputs encoded i (np_where_eq Y (int i) T' (- T')))
       [0..<outputs]
       \<lparr>shape = [length Y, outputs], data = map (np_empty E) [0..<length Y * outputs]\<rparr>"

definition MultiClassGraphTsetlinMachine_fit ::
  "env \<Rightarrow> model \<Rightarrow> graphs \<Rightarrow> int list \<Rightarrow> nat \<Rightarrow> bool \<Rightarrow> error + model" where
  "MultiClassGraphTsetlinMachine_fit E self g Y epochs incremental =
     ebind (np_max Y) (\<lambda>largest.
     let self = self\<lparr>number_of_outputs := Some (largest + 1)\<rparr>;
         self = self\<lparr>max_y := Some None\<rparr>;
         self = self\<lparr>min_y := Some None\<rparr> in
     if largest + 1 < 0 then Inl ValueError else
       p_fit E self g (multiclass_encoded_Y E (T self) Y (nat (largest + 1))) epochs incremental)"

text \<open>\<open>np.where(Y == 1, self.T, -self.T).astype(np.int32)\<close>.\<close>

definition output_encoded_Y :: "int \<Rightarrow> int ndarray \<Rightarrow> int ndarray" where
  "output_encoded_Y T' Y =
     \<lparr>shape = shape Y, data = map int32 (np_where_eq (data Y) 1 T' (- T'))\<rparr>"

definition MultiOutputGraphTsetlinMachine_fit ::
  "env \<Rightarrow> model \<Rightarrow> graphs \<Rightarrow> int ndarray \<Rightarrow> nat \<Rightarrow> bool \<Rightarrow> error + model" where
  "MultiOutputGraphTsetlinMachine_fit E self g Y epochs incremental =
     ebind (item (shape Y) 1) (\<lambda>columns.
     let self = self\<lparr>number_of_outputs := Some (int columns)\<rparr>;
         self = self\<lparr>max_y := Some None\<rparr>;
         self = self\<lparr>min_y := Some None\<rparr> in
       p_fit E self g (output_encoded_Y (T self) Y) epochs incremental)"

definition GraphTsetlinMachine_fit :: "env \<Rightarrow> model \<Rightarrow> graphs \<Rightarrow> int ndarray \<Rightarrow> error + model" where
  "GraphTsetlinMachine_fit E self g Y =
     (let self = self\<lparr>number_of_outputs := Some 1\<rparr>;
          self = self\<lparr>max_y := Some None\<rparr>;
          self = self\<lparr>min_y := Some None\<rparr> in
        p_fit E self g (output_encoded_Y (T self) Y) 100 False)"

definition MultiClassGraphTsetlinMachine_score ::
  "env \<Rightarrow> model \<Rightarrow> graphs \<Rightarrow> error + int ndarray \<times> model" where
  "MultiClassGraphTsetlinMachine_score E self g = p_score E self g"

definition MultiOutputGraphTsetlinMachine_score ::
  "env \<Rightarrow> model \<Rightarrow> graphs \<Rightarrow> error + int ndarray \<times> model" where
  "MultiOutputGraphTsetlinMachine_score E self g = p_score E self g"

text \<open>\<open>a[:,0]\<close> of a two-dimensional array: the one-dimensional array of its first column.\<close>

definition column0 :: "'a ndarray \<Rightarrow> error + 'a ndarray" where
  "column0 a =
     (case shape a of
        [n, k] \<Rightarrow> if k = 0 then Inl IndexError
                  else Inr \<lparr>shape = [n], data = map (\<lambda>e. data a ! (e * k)) [0..<n]\<rparr>
      | _ \<Rightarrow> Inl IndexError)"

definition GraphTsetlinMachine_score ::
  "env \<Rightarrow> model \<Rightarrow> graphs \<Rightarrow> error + int ndarray \<times> model" where
  "GraphTsetlinMachine_score E self g =
     ebind (p_score E self g) (\<lambda>(class_sum, self).
     ebind (column0 class_sum) (\<lambda>first. Inr (first, self)))"

text \<open>
  \<open>np.argmax\<close> of a row: a scan that keeps the first position of the largest value seen;
  along axis 1 of a two-dimensional array it raises \<open>ValueError\<close> when there are no columns.
\<close>

fun argmax_scan :: "int list \<Rightarrow> nat \<Rightarrow> nat \<Rightarrow> int \<Rightarrow> nat" where
  "argmax_scan [] i best_i best = best_i"
| "argmax_scan (x # xs) i best_i best =
     (if best < x then argmax_scan xs (Suc i) i x else argmax_scan xs (Suc i) best_i best)"

definition np_argmax :: "int list \<Rightarrow> nat" where
  "np_argmax xs = (case xs of [] \<Rightarrow> 0 | x # xs' \<Rightarrow> argmax_scan xs' 1 0 x)"

definition np_argmax_axis1 :: "int ndarray \<Rightarrow> error + nat ndarray" where
  "np_argmax_axis1 a =
     (case shape a of
        [n, k] \<Rightarrow> if k = 0 then Inl ValueError
                  else Inr \<lparr>shape = [n], data = map (\<lambda>e. np_argmax (row k a e)) [0..<n]\<rparr>
      | _ \<Rightarrow> Inl ValueError)"

definition MultiClassGraphTsetlinMachine_predict ::
  "env \<Rightarrow> model \<Rightarrow> graphs \<Rightarrow> error + nat ndarray \<times> model" where
  "MultiClassGraphTsetlinMachine_predict E self g =
     ebind (MultiClassGraphTsetlinMachine_score E self g) (\<lambda>(class_sum, self).
     ebind (np_argmax_axis1 class_sum) (\<lambda>labels. Inr (labels, self)))"

text \<open>\<open>(class_sums >= 0).astype(np.uint32)\<close>: 1 where the sum is not negative, else 0.\<close>

definition MultiOutputGraphTsetlinMachine_predict ::
  "env \<Rightarrow> model \<Rightarrow> graphs \<Rightarrow> error + u32 ndarray \<times> model" where
  "MultiOutputGraphTsetlinMachine_predict E self g =
     ebind (MultiOutputGraphTsetlinMachine_score E self g) (\<lambda>(class_sums, self).
       Inr (\<lparr>shape = shape class_sums,
             data = map (\<lambda>v. if 0 \<le> v then 1 else 0) (data class_sums)\<rparr>, self))"

definition GraphTsetlinMachine_predict ::
  "env \<Rightarrow> model \<Rightarrow> graphs \<Rightarrow> error + bool ndarray \<times> model" where
  "GraphTsetlinMachine_predict E self g =
     ebind (GraphTsetlinMachine_score E self g) (\<lambda>(score, self).
       Inr (\<lparr>shape = shape score, data = map (\<lambda>v. 0 \<le> v) (data score)\<rparr>, self))"

section \<open>Predicates used in the proofs\<close>

text \<open>
  \<open>settings\<close> blanks the attributes that a kernel launch can change and \<open>eval_frame\<close> the
  attributes that \<open>_evaluate\<close> changes: two models with equal images agree on everything else.
\<close>

definition settings :: "model \<Rightarrow> model" where
  "settings self = self\<lparr>class_sum_gpu := None, number_of_include_actions := None, launches := [],
     g_state := (\<lambda>i. 0), clause_node_gpu := None, clause_weights_gpu := None,
     class_clause_update_gpu := None, ta_state_gpu := None, message_ta_state_gpu := None,
     train_gpu := None, test_gpu := None\<rparr>"

definition eval_frame :: "model \<Rightarrow> model" where
  "eval_frame self =
     self\<lparr>class_sum_gpu := None, number_of_include_actions := None, launches := []\<rparr>"

text \<open>
  What the loops need in order not to raise: the device attributes are assigned, there is
  one layer of message automata and one packed message buffer per message round, \<open>s\<close> has
  an entry per layer, and the index arrays of the graph set cover its graphs.
\<close>

definition dev_ready :: "model \<Rightarrow> bool" where
  "dev_ready self \<longleftrightarrow>
     initialized self \<and> class_sum_gpu self \<noteq> None \<and> module self \<noteq> None \<and> ta_state_gpu self \<noteq> None \<and>
     number_of_include_actions self \<noteq> None \<and> clause_weights_gpu self \<noteq> None \<and>
     hypervectors_gpu self \<noteq> None \<and> clause_node_gpu self \<noteq> None \<and>
     number_of_message_literals self \<noteq> None \<and> number_of_message_chunks self \<noteq> None \<and>
     (\<exists>k. number_of_outputs self = Some k \<and> 0 \<le> k) \<and>
     (\<exists>layers. message_ta_state_gpu self = Some layers \<and> nat (depth self - 1) \<le> length layers) \<and>
     nat (depth self - 1) < length (s self)"

definition eval_ready :: "model \<Rightarrow> graph_buffers \<Rightarrow> bool" where
  "eval_ready self b \<longleftrightarrow> dev_ready self \<and> nat (depth self - 1) \<le> length (clause_X_gpu b)"

definition graphs_ok :: "graphs \<Rightarrow> bool" where
  "graphs_ok g \<longleftrightarrow>
     number_of_graphs g \<le> length (number_of_graph_nodes g) \<and>
     number_of_graphs g \<le> length (node_index g) \<and>
     list_all (\<lambda>e. node_index g ! e < length (edge_index g)) [0..<number_of_graphs g]"

definition fit_ready :: "model \<Rightarrow> bool" where
  "fit_ready self \<longleftrightarrow>
     (\<exists>b. train_gpu self = Some b \<and> eval_ready self b) \<and>
     encoded_Y_gpu self \<noteq> None \<and> class_clause_update_gpu self \<noteq> None"

definition score_ready :: "model \<Rightarrow> bool" where
  "score_ready self \<longleftrightarrow> (\<exists>b. test_gpu self = Some b \<and> eval_ready self b)"

section \<open>Concrete instances\<close>

text \<open>
  Kernels, collaborators and models on which the theorems below are instantiated: two
  clauses, threshold 10, depth 2, two state bits, and a set of two graphs with three nodes.
\<close>

definition demo_kernels :: kernels where
  "demo_kernels = \<lparr>
     compiled_with = \<lparr>CLASSES = 0, CLAUSES = 0, LITERALS = 0, STATE_BITS = 0,
       BOOST_TRUE_POSITIVE_FEEDBACK = 0, THRESHOLD = 0, Q = 0, MAX_INCLUDED_LITERALS = 0,
       NEGATIVE_CLAUSES = 0, MAX_NODES = 0, MESSAGE_SIZE = 0, MESSAGE_BITS = 0\<rparr>,
     prepare = (\<lambda>g ta w cs. (g, (\<lambda>i. 0), (\<lambda>i. 1), (\<lambda>i. 0))),
     prepare_message_ta_state = (\<lambda>layer i. 0),
     calculate_messages = (\<lambda>ta n ni x. ((\<lambda>i. sum_list ta + x ni), (\<lambda>i. 0))),
     prepare_messages = (\<lambda>n i. 0),
     exchange_messages = (\<lambda>n hv cno ni ei ne ed x i. x i + cno 0 + hv 1),
     encode_messages = (\<lambda>n x. x),
     calculate_messages_conditional = (\<lambda>layer n cur ia cx. ((\<lambda>i. cur 0 + layer 0 + cx 0), ia)),
     evaluate = (\<lambda>cno w n cs i. cs i + cno 0 * (if i < length w then w ! i else 0)),
     select_clause_node = (\<lambda>g cno n. (g, cno)),
     select_clause_updates = (\<lambda>g w cs ey e cn. (g, (\<lambda>i. w i + ey i), cn)),
     update = (\<lambda>g s0 ta n ni cn ia x ccu. (g, (\<lambda>i. ta i + 1), ia)),
     update_message = (\<lambda>g sd layer n cn ia cx ccu. (g, (\<lambda>i. layer i + 2), ia)),
     transform_gpu = (\<lambda>cno n. cno) \<rparr>"

definition demo_env :: env where
  "demo_env = \<lparr>SourceModule = (\<lambda>p. demo_kernels), mem_alloc = (\<lambda>name k i. 7),
     np_empty = (\<lambda>i. 5)\<rparr>"

definition demo_graphs :: graphs where
  "demo_graphs = \<lparr>hypervector_size = 1, max_number_of_graph_nodes = 2,
     max_number_of_graph_node_chunks = 1, signature = \<lparr>shape = [1], data = [42]\<rparr>,
     X = [3, 1, 2], number_of_graphs = 2, number_of_graph_nodes = [1, 2], node_index = [0, 1],
     edge_index = [0, 0, 1], number_of_graph_node_edges = [0, 1, 1], edge = [2, 0, 1, 0]\<rparr>"

definition demo_multiclass :: "error + model" where
  "demo_multiclass =
     MultiClassGraphTsetlinMachine_init (\<lambda>i. [1, 0, 2, 3]) (\<lambda>i. 0) 2 10 (Number 1) 1 None 1 2 2 4 2
       False"

definition demo_multioutput :: "error + model" where
  "demo_multioutput =
     MultiOutputGraphTsetlinMachine_init (\<lambda>i. [1, 0, 2, 3]) (\<lambda>i. 0) 2 10 (Number 1) 1 None 1 2 2 4 2
       False"

definition demo_binary :: "error + model" where
  "demo_binary =
     GraphTsetlinMachine_init (\<lambda>i. [1, 0, 2, 3]) (\<lambda>i. 0) 2 10 (Number 1) 1 None 1 2 2 4 2 False"

text \<open>A second graph set, for scoring: the graphs of \<open>demo_graphs\<close> with other feature words.\<close>

definition demo_graphs_test :: graphs where
  "demo_graphs_test =
     demo_graphs\<lparr>X := [3, 4294967000, 2], signature := \<lparr>shape = [1], data = [43]\<rparr>\<rparr>"

text \<open>The multi-class model again, with a threshold beyond the range of \<open>np.int32\<close>.\<close>

definition wide_multiclass :: "error + model" where
  "wide_multiclass =
     MultiClassGraphTsetlinMachine_init (\<lambda>i. [1, 0, 2, 3]) (\<lambda>i. 0) 2 2147483653 (Number 1) 1 None
       1 2 2 4 2 False"

section \<open>Basic facts\<close>

lemma attr_simps [simp]: "attr None = Inl AttributeError" "attr (Some x) = Inr x"
  by (simp_all add: attr_def)

lemma ebind_simps [simp]: "ebind (Inl e) f = Inl e" "ebind (Inr x) f = f x"
  by (simp_all add: ebind_def)

lemma ebind_eq_Inr: "ebind r f = Inr y \<longleftrightarrow> (\<exists>x. r = Inr x \<and> f x = Inr y)"
  by (cases r) simp_all

lemma not_isl_ebind: "\<not> isl (ebind r f) \<Longrightarrow> \<exists>x y. r = Inr x \<and> f x = Inr y"
  by (cases r; cases "ebind r f") auto

lemma mapE_Inr_length: "mapE f xs = Inr ys \<Longrightarrow> length ys = length xs"
  by (induction xs arbitrary: ys) (auto simp: ebind_eq_Inr)

lemma mapE_Inr_nth: "mapE f xs = Inr ys \<Longrightarrow> i < length xs \<Longrightarrow> f (xs ! i) = Inr (ys ! i)"
proof (induction xs arbitrary: ys i)
  case Nil
  then show ?case by simp
next
  case (Cons x xs)
  then show ?case by (cases i) (auto simp: ebind_eq_Inr)
qed

section \<open>The hypervector table\<close>

lemma is_prime_gt_1: "is_prime n \<Longrightarrow> 1 < n"
  by (simp add: is_prime_def)

lemma prime_at_most_Some:
  "prime_at_most k = Some p \<Longrightarrow>
     is_prime p \<and> p \<le> k \<and> (\<forall>r. p < r \<and> r \<le> k \<longrightarrow> \<not> is_prime r)"
proof (induction k)
  case 0
  then show ?case by simp
next
  case (Suc k)
  show ?case
  proof (cases "is_prime (Suc k)")
    case True
    with Suc.prems show ?thesis by auto
  next
    case False
    with Suc.prems have "prime_at_most k = Some p" by simp
    from Suc.IH [OF this] False show ?thesis
      by (auto simp: le_Suc_eq)
  qed
qed

lemma prevprime_Inr:
  "prevprime n = Inr p \<Longrightarrow>
     is_prime p \<and> 1 < p \<and> p < n \<and> (\<forall>r. p < r \<and> r < n \<longrightarrow> \<not> is_prime r)"
proof -
  assume "prevprime n = Inr p"
  then have "3 \<le> n" and "prime_at_most (n - 1) = Some p"
    by (auto simp: prevprime_def split: if_splits option.splits)
  from prime_at_most_Some [OF this(2)] this(1) show ?thesis
    by (auto dest: is_prime_gt_1)
qed

lemma prevprime_8: "prevprime 8 = Inr 7"
  by code_simp

lemma uint32_index: "j < 2 ^ 32 \<Longrightarrow> unat (of_nat j :: u32) = j"
  by (simp add: unat_of_nat)

lemma random_choice_row:
  assumes "random_choice perm (map (\<lambda>j. unat (of_nat j :: u32)) [0..<n]) k = Inr r"
    and "is_permutation perm n" and "n \<le> 2 ^ 32"
  shows "length r = k \<and> distinct r \<and> list_all (\<lambda>p. p < n) r"
proof -
  have a: "map (\<lambda>j. unat (of_nat j :: u32)) [0..<n] = [0..<n]"
    using assms(3) by (intro map_idI uint32_index) simp
  from assms(1) have k: "k \<le> n" and r: "r = map (\<lambda>j. [0..<n] ! j) (take k perm)"
    unfolding a by (auto simp: random_choice_def split: if_splits)
  from assms(2) have len: "length perm = n" and d: "distinct perm" and b: "\<forall>j\<in>set perm. j < n"
    by (auto simp: is_permutation_def list_all_iff)
  have "\<forall>j\<in>set (take k perm). j < n"
    using b by (auto dest: in_set_takeD)
  then have r': "r = take k perm"
    unfolding r by (simp add: map_idI)
  show ?thesis
    using k len d b unfolding r' by (auto simp: list_all_iff dest: in_set_takeD)
qed

lemma uint32_item_eq_Inr: "uint32_item v = Inr w \<longleftrightarrow> w = v \<and> v < 2 ^ 32"
proof -
  have "int v < 2 ^ 32 \<longleftrightarrow> v < 2 ^ 32"
    using of_nat_less_iff [of v "2 ^ 32", where ?'a = int] by simp
  then show ?thesis by (auto simp: uint32_item_def)
qed

lemma double_hashing_row:
  assumes "ebind (uint32_item (i mod ms)) (\<lambda>first.
           ebind (uint32_item (ms + prime - (i mod prime))) (\<lambda>second. Inr [first, second]))
             = Inr r"
  shows "r = [i mod ms, ms + prime - (i mod prime)] \<and> ms + prime - (i mod prime) < 2 ^ 32"
  using assms by (auto simp: ebind_eq_Inr uint32_item_eq_Inr)

text \<open>
  Claim C9: with \<open>double_hashing=True\<close> the constructed model has \<open>message_bits = 2\<close>, whatever
  \<open>message_bits\<close> was passed; the value passed is kept only when \<open>double_hashing\<close> is false.
\<close>

theorem double_hashing_fixes_message_bits:
  "CommonTsetlinMachine_init np_random g0 nc T' s' q' mil btpf nsb depth' ms mb dh = Inr self
     \<Longrightarrow> message_bits self = (if dh then 2 else mb)"
  by (auto simp: CommonTsetlinMachine_init_def Let_def ebind_eq_Inr split: if_splits)

theorem double_hashing_fixes_message_bits_witness:
  "map_sum id message_bits
     (CommonTsetlinMachine_init (\<lambda>i. []) (\<lambda>i. 0) 3 10 (Number 1) 1 None 1 8 2 8 5 True) = Inr 2"
proof -
  have "\<not> isl (CommonTsetlinMachine_init (\<lambda>i. []) (\<lambda>i. 0) 3 10 (Number 1) 1 None 1 8 2 8 5 True)"
    by code_simp
  then obtain self where h:
    "CommonTsetlinMachine_init (\<lambda>i. []) (\<lambda>i. 0) 3 10 (Number 1) 1 None 1 8 2 8 5 True = Inr self"
    by (cases "CommonTsetlinMachine_init (\<lambda>i. []) (\<lambda>i. 0) 3 10 (Number 1) 1 None 1 8 2 8 5 True")
      auto
  from double_hashing_fixes_message_bits [OF h] show ?thesis unfolding h by simp
qed

text \<open>
  Claim C2, as amended. Every row of the hypervector table of a constructed model has
  exactly \<open>message_bits\<close> entries. Without double hashing, and for \<open>message_size\<close> up to
  \<open>2 ^ 32\<close>, the entries of a row are pairwise distinct and lie in \<open>[0, message_size)\<close> (numpy
  draws each row without replacement). With double hashing row \<open>i\<close> is
  \<open>[i mod message_size, message_size + prime - (i mod prime)]\<close>, where \<open>prime\<close> is the largest
  prime below \<open>message_size\<close>: the first entry lies in \<open>[0, message_size)\<close>, the second lies
  strictly between \<open>message_size\<close> and \<open>2 * message_size\<close>, so outside \<open>[0, message_size)\<close>, and
  the position it addresses after the reduction modulo \<open>message_size\<close> that the users of
  the table apply is \<open>prime - (i mod prime)\<close>; it fits the \<open>uint32\<close> table (a constructor
  call that would store \<open>2 ^ 32\<close> or more raises instead). The two positions that a row
  addresses are not always different: they coincide exactly when
  \<open>i mod message_size + i mod prime = prime\<close>, as in row 7 for \<open>message_size = 8\<close>.
\<close>

theorem hypervector_rows:
  assumes "CommonTsetlinMachine_init np_random g0 nc T' s' q' mil btpf nsb depth' ms mb dh = Inr self"
    and "\<not> dh \<Longrightarrow> ms \<le> 2 ^ 32 \<and> (\<forall>i<nc. is_permutation (np_random i) ms)"
  shows "message_size self = ms \<and> length (hypervectors self) = nc \<and>
         (\<forall>i<nc. length (hypervectors self ! i) = message_bits self) \<and>
         (if dh then
            (\<exists>prime. prevprime ms = Inr prime \<and> is_prime prime \<and> prime < ms \<and>
               (\<forall>r. prime < r \<and> r < ms \<longrightarrow> \<not> is_prime r) \<and>
               (\<forall>i<nc. hypervectors self ! i = [i mod ms, ms + prime - (i mod prime)] \<and>
                  i mod ms < ms \<and> ms < ms + prime - (i mod prime) \<and>
                  ms + prime - (i mod prime) < 2 * ms \<and>
                  ms + prime - (i mod prime) < 2 ^ 32 \<and>
                  (ms + prime - (i mod prime)) mod ms = prime - (i mod prime) \<and>
                  (i mod ms = (ms + prime - (i mod prime)) mod ms
                     \<longleftrightarrow> i mod ms + i mod prime = prime)))
          else (\<forall>i<nc. distinct (hypervectors self ! i) \<and>
                  list_all (\<lambda>p. p < ms) (hypervectors self ! i)))"
proof (cases dh)
  case True
  with assms(1) obtain prime rows where p: "prevprime ms = Inr prime"
    and m: "mapE (\<lambda>i. ebind (uint32_item (i mod ms)) (\<lambda>first.
                      ebind (uint32_item (ms + prime - (i mod prime)))
                        (\<lambda>second. Inr [first, second]))) [0..<nc] = Inr rows"
    and h: "hypervectors self = rows"
    and mb: "message_bits self = 2" and ms: "message_size self = ms"
    by (auto simp: CommonTsetlinMachine_init_def Let_def ebind_eq_Inr)
  from prevprime_Inr [OF p] have b: "is_prime prime" "1 < prime" "prime < ms"
    "\<forall>r. prime < r \<and> r < ms \<longrightarrow> \<not> is_prime r" by simp_all
  have row: "rows ! i = [i mod ms, ms + prime - (i mod prime)] \<and>
             ms + prime - (i mod prime) < 2 ^ 32" if "i < nc" for i
    using mapE_Inr_nth [OF m, of i] that by (auto dest: double_hashing_row)
  have lo: "i mod ms < ms" for i using b by simp
  have md: "i mod prime < prime" for i using b by simp
  have hi: "ms < ms + prime - (i mod prime) \<and> ms + prime - (i mod prime) < 2 * ms" for i
    using md [of i] b by linarith
  have red: "(ms + prime - (i mod prime)) mod ms = prime - (i mod prime)" for i
  proof -
    have e: "ms + prime - (i mod prime) = prime - (i mod prime) + ms"
      using md [of i] by simp
    have "prime - (i mod prime) < ms" using b by simp
    then show ?thesis unfolding e by simp
  qed
  have col: "i mod ms = (ms + prime - (i mod prime)) mod ms
               \<longleftrightarrow> i mod ms + i mod prime = prime" for i
    unfolding red using md [of i] by linarith
  have "\<forall>i<nc. hypervectors self ! i = [i mod ms, ms + prime - (i mod prime)] \<and>
                  i mod ms < ms \<and> ms < ms + prime - (i mod prime) \<and>
                  ms + prime - (i mod prime) < 2 * ms \<and>
                  ms + prime - (i mod prime) < 2 ^ 32 \<and>
                  (ms + prime - (i mod prime)) mod ms = prime - (i mod prime) \<and>
                  (i mod ms = (ms + prime - (i mod prime)) mod ms
                     \<longleftrightarrow> i mod ms + i mod prime = prime)"
    using row lo hi red col by (simp add: h)
  with p b have "\<exists>prime. prevprime ms = Inr prime \<and> is_prime prime \<and> prime < ms \<and>
               (\<forall>r. prime < r \<and> r < ms \<longrightarrow> \<not> is_prime r) \<and>
               (\<forall>i<nc. hypervectors self ! i = [i mod ms, ms + prime - (i mod prime)] \<and>
                  i mod ms < ms \<and> ms < ms + prime - (i mod prime) \<and>
                  ms + prime - (i mod prime) < 2 * ms \<and>
                  ms + prime - (i mod prime) < 2 ^ 32 \<and>
                  (ms + prime - (i mod prime)) mod ms = prime - (i mod prime) \<and>
                  (i mod ms = (ms + prime - (i mod prime)) mod ms
                     \<longleftrightarrow> i mod ms + i mod prime = prime))"
    by blast
  moreover have "\<forall>i<nc. length (hypervectors self ! i) = message_bits self"
    using row by (simp add: h mb)
  ultimately show ?thesis
    using True mapE_Inr_length [OF m] by (simp add: h ms)
next
  case False
  with assms(1) obtain rows where
    m: "mapE (\<lambda>i. random_choice (np_random i) (map (\<lambda>j. unat (of_nat j :: u32)) [0..<ms]) mb) [0..<nc]
          = Inr rows"
    and h: "hypervectors self = rows" and mb: "message_bits self = mb"
    and ms: "message_size self = ms"
    by (auto simp: CommonTsetlinMachine_init_def Let_def ebind_eq_Inr)
  have "length (rows ! i) = mb \<and> distinct (rows ! i) \<and> list_all (\<lambda>p. p < ms) (rows ! i)"
    if "i < nc" for i
  proof -
    from mapE_Inr_nth [OF m, of i] that
    have "random_choice (np_random i) (map (\<lambda>j. unat (of_nat j :: u32)) [0..<ms]) mb = Inr (rows ! i)"
      by simp
    moreover from assms(2) False that have "is_permutation (np_random i) ms" "ms \<le> 2 ^ 32"
      by simp_all
    ultimately show ?thesis by (rule random_choice_row)
  qed
  with False mapE_Inr_length [OF m] show ?thesis by (simp add: h mb ms)
qed

lemma hypervectors_double_hashing_8:
  "\<not> isl (CommonTsetlinMachine_init (\<lambda>i. []) (\<lambda>i. 0) 8 10 (Number 1) 1 None 1 8 1 8 2 True)"
  by code_simp

lemma hypervectors_random_4:
  "\<not> isl (CommonTsetlinMachine_init (\<lambda>i. [3, 1, 0, 2]) (\<lambda>i. 0) 2 10 (Number 1) 1 None 1 8 2 4 2
            False)"
  by code_simp

theorem hypervector_rows_witness:
  "map_sum id (\<lambda>self. (length (hypervectors self),
                       length (hypervectors self ! 1) = message_bits self,
                       distinct (hypervectors self ! 1),
                       list_all (\<lambda>p. p < 4) (hypervectors self ! 1)))
     (CommonTsetlinMachine_init (\<lambda>i. [3, 1, 0, 2]) (\<lambda>i. 0) 2 10 (Number 1) 1 None 1 8 2 4 2 False)
   = Inr (2, True, True, True) \<and>
   map_sum id (\<lambda>self. (length (hypervectors self), hypervectors self ! 3, hypervectors self ! 7,
                       hypervectors self ! 7 ! 1 mod 8))
     (CommonTsetlinMachine_init (\<lambda>i. []) (\<lambda>i. 0) 8 10 (Number 1) 1 None 1 8 1 8 2 True)
   = Inr (8, [3, 12], [7, 15], 7)"
proof -
  from hypervectors_random_4 obtain a where a:
    "CommonTsetlinMachine_init (\<lambda>i. [3, 1, 0, 2]) (\<lambda>i. 0) 2 10 (Number 1) 1 None 1 8 2 4 2 False
       = Inr a"
    by (cases "CommonTsetlinMachine_init (\<lambda>i. [3, 1, 0, 2]) (\<lambda>i. 0) 2 10 (Number 1) 1 None 1
        8 2 4 2 False") auto
  from hypervectors_double_hashing_8 obtain b where b:
    "CommonTsetlinMachine_init (\<lambda>i. []) (\<lambda>i. 0) 8 10 (Number 1) 1 None 1 8 1 8 2 True = Inr b"
    by (cases "CommonTsetlinMachine_init (\<lambda>i. []) (\<lambda>i. 0) 8 10 (Number 1) 1 None 1 8 1 8 2 True")
      auto
  have p: "\<not> False \<Longrightarrow> (4::nat) \<le> 2 ^ 32 \<and> (\<forall>i<2. is_permutation ((\<lambda>i. [3, 1, 0, 2]) i) 4)"
    by (simp add: is_permutation_def)
  from hypervector_rows [OF a p] have A:
    "length (hypervectors a) = 2 \<and> length (hypervectors a ! 1) = message_bits a \<and>
     distinct (hypervectors a ! 1) \<and> list_all (\<lambda>p. p < 4) (hypervectors a ! 1)"
    by simp
  from hypervector_rows [OF b] have B:
    "length (hypervectors b) = 8 \<and> hypervectors b ! 3 = [3, 12] \<and>
     hypervectors b ! 7 = [7, 15] \<and> hypervectors b ! 7 ! 1 mod 8 = 7"
    by (simp add: prevprime_8)
  from A B show ?thesis unfolding a b by simp
qed

text \<open>
  The claim as stated fails with double hashing: for \<open>message_size = 8\<close> row 7 of the table is
  \<open>[7, 15]\<close>. Its second entry is not below 8, and reduced modulo 8 both entries address
  position 7.
\<close>

theorem hypervector_range_counterexample:
  "map_sum id (\<lambda>self. (hypervectors self ! 7,
                       list_all (\<lambda>p. p < message_size self) (hypervectors self ! 7),
                       map (\<lambda>p. p mod message_size self) (hypervectors self ! 7)))
     (CommonTsetlinMachine_init (\<lambda>i. []) (\<lambda>i. 0) 8 10 (Number 1) 1 None 1 8 1 8 2 True)
   = Inr ([7, 15], False, [7, 7])"
  by code_simp

section \<open>What the operations leave unchanged\<close>

lemma foldE_invariant:
  assumes "foldE f xs st = Inr st'" and "I st"
    and "\<And>x a b. x \<in> set xs \<Longrightarrow> I a \<Longrightarrow> f x a = Inr b \<Longrightarrow> I b"
  shows "I st'"
  using assms by (induction xs arbitrary: st) (auto simp: ebind_eq_Inr)

lemma settings_fields:
  "number_of_outputs (settings self) = number_of_outputs self"
  "encoded_Y (settings self) = encoded_Y self"
  "T (settings self) = T self"
  "depth (settings self) = depth self"
  "number_of_clauses (settings self) = number_of_clauses self"
  "module (settings self) = module self"
  "initialized (settings self) = initialized self"
  "ta_state (settings self) = ta_state self"
  "clause_weights (settings self) = clause_weights self"
  "number_of_ta_chunks (settings self) = number_of_ta_chunks self"
  "number_of_state_bits (settings self) = number_of_state_bits self"
  "number_of_literals (settings self) = number_of_literals self"
  "graphs_signature_test (settings self) = graphs_signature_test self"
  "hypervectors_gpu (settings self) = hypervectors_gpu self"
  "graphs_signature_train (settings self) = graphs_signature_train self"
  "s (settings self) = s self"
  by (simp_all add: settings_def)

lemma message_round_settings:
  "message_round K n ni ei d (c, x, self, b) = Inr (c', x', self', b') \<Longrightarrow>
     settings self' = settings self"
  by (auto simp: message_round_def settings_def ebind_eq_Inr Let_def case_prod_unfold)

lemma foldE_message_round_settings:
  "foldE (message_round K n ni ei) ds (c, x, self, b) = Inr (c', x', self', b') \<Longrightarrow>
     settings self' = settings self"
proof -
  assume h: "foldE (message_round K n ni ei) ds (c, x, self, b) = Inr (c', x', self', b')"
  have "(\<lambda>st. settings (fst (snd (snd st))) = settings self) (c', x', self', b')"
    by (rule foldE_invariant [OF h]) (auto dest: message_round_settings)
  then show ?thesis by simp
qed

lemma p_evaluate_settings:
  "p_evaluate self b n ni ei c x = Inr (c', self', b') \<Longrightarrow> settings self' = settings self"
  by (auto simp: p_evaluate_def ebind_eq_Inr Let_def settings_def case_prod_unfold
      split: if_splits dest!: foldE_message_round_settings)

lemma launch_update_message_settings:
  "launch_update_message n d self = Inr self' \<Longrightarrow> settings self' = settings self"
  by (auto simp: launch_update_message_def settings_def ebind_eq_Inr case_prod_unfold)

lemma foldE_settings:
  assumes "foldE f xs self = Inr self'"
    and "\<And>x a b. f x a = Inr b \<Longrightarrow> settings b = settings a"
  shows "settings self' = settings self"
proof -
  have "(\<lambda>m. settings m = settings self) self'"
    by (rule foldE_invariant [OF assms(1)]) (auto dest: assms(2))
  then show ?thesis .
qed

lemma settings_update [simp]:
  "settings (self\<lparr>class_sum_gpu := a1\<rparr>) = settings self"
  "settings (self\<lparr>number_of_include_actions := a2\<rparr>) = settings self"
  "settings (self\<lparr>launches := a3\<rparr>) = settings self"
  "settings (self\<lparr>g_state := a4\<rparr>) = settings self"
  "settings (self\<lparr>clause_node_gpu := a5\<rparr>) = settings self"
  "settings (self\<lparr>clause_weights_gpu := a6\<rparr>) = settings self"
  "settings (self\<lparr>class_clause_update_gpu := a7\<rparr>) = settings self"
  "settings (self\<lparr>ta_state_gpu := a8\<rparr>) = settings self"
  "settings (self\<lparr>message_ta_state_gpu := a9\<rparr>) = settings self"
  "settings (self\<lparr>train_gpu := a10\<rparr>) = settings self"
  "settings (self\<lparr>test_gpu := a11\<rparr>) = settings self"
  by (simp_all add: settings_def)

lemma p_evaluate_settings_proj:
  "p_evaluate self b n ni ei c x = Inr r \<Longrightarrow> settings (fst (snd r)) = settings self"
  by (cases r) (auto dest: p_evaluate_settings)

lemma fit_example_settings:
  "fit_example g k e self = Inr self' \<Longrightarrow> settings self' = settings self"
  by (auto simp: fit_example_def ebind_eq_Inr Let_def case_prod_unfold
      dest!: p_evaluate_settings_proj foldE_settings [OF _ launch_update_message_settings])

lemma launch_prepare_settings:
  "launch_prepare self = Inr self' \<Longrightarrow> settings self' = settings self"
  by (auto simp: launch_prepare_def ebind_eq_Inr case_prod_unfold)

lemma launch_prepare_message_ta_state_settings:
  "launch_prepare_message_ta_state d self = Inr self' \<Longrightarrow> settings self' = settings self"
  by (auto simp: launch_prepare_message_ta_state_def ebind_eq_Inr)

lemma score_example_settings:
  "score_example g k e (cs, self) = Inr (cs', self') \<Longrightarrow> settings self' = settings self"
  by (auto simp: score_example_def ebind_eq_Inr Let_def case_prod_unfold
      dest!: p_evaluate_settings_proj)

lemma allocate_gpu_memory_keeps:
  "allocate_gpu_memory E self = Inr self' \<Longrightarrow>
     number_of_outputs self' = number_of_outputs self \<and> T self' = T self \<and>
     depth self' = depth self \<and> encoded_Y self' = encoded_Y self \<and>
     number_of_clauses self' = number_of_clauses self \<and>
     number_of_state_bits self' = number_of_state_bits self \<and>
     ta_state self' = ta_state self \<and> clause_weights self' = clause_weights self \<and>
     graphs_signature_test self' = graphs_signature_test self \<and>
     graphs_signature_train self' = graphs_signature_train self"
  by (auto simp: allocate_gpu_memory_def ebind_eq_Inr)

lemma p_init_keeps:
  "p_init E self g = Inr self' \<Longrightarrow>
     number_of_outputs self' = number_of_outputs self \<and> T self' = T self \<and>
     depth self' = depth self \<and> encoded_Y self' = encoded_Y self \<and>
     number_of_clauses self' = number_of_clauses self \<and>
     number_of_state_bits self' = number_of_state_bits self \<and>
     ta_state self' = ta_state self \<and> clause_weights self' = clause_weights self \<and>
     graphs_signature_test self' = graphs_signature_test self \<and>
     graphs_signature_train self' = graphs_signature_train self"
  unfolding p_init_def Let_def
  apply (clarsimp simp: ebind_eq_Inr)
  apply (drule allocate_gpu_memory_keeps)
  apply (simp split: if_splits)
  done

lemma init_or_reset_keeps:
  assumes "init_or_reset E self g incremental = Inr m1"
  shows "number_of_outputs m1 = number_of_outputs self \<and> T m1 = T self \<and>
     depth m1 = depth self \<and> encoded_Y m1 = encoded_Y self \<and>
     number_of_clauses m1 = number_of_clauses self \<and>
     number_of_state_bits m1 = number_of_state_bits self \<and>
     ta_state m1 = ta_state self \<and> clause_weights m1 = clause_weights self \<and>
     graphs_signature_test m1 = graphs_signature_test self"
proof (cases "initialized self")
  case False
  with assms obtain a b where a: "p_init E self g = Inr a" and b: "launch_prepare a = Inr b"
    and c: "foldE launch_prepare_message_ta_state [0..<nat (depth b - 1)] b = Inr m1"
    by (auto simp: init_or_reset_def ebind_eq_Inr)
  have "settings m1 = settings a"
    using foldE_settings [OF c launch_prepare_message_ta_state_settings]
      launch_prepare_settings [OF b] by simp
  then show ?thesis
    using p_init_keeps [OF a] by (metis settings_fields)
next
  case True
  with assms have "settings m1 = settings self"
    by (auto simp: init_or_reset_def split: if_splits dest: launch_prepare_settings)
  then show ?thesis by (metis settings_fields)
qed

lemma bind_train_graphs_keeps:
  "bind_train_graphs E self g = Inr m2 \<Longrightarrow>
     number_of_outputs m2 = number_of_outputs self \<and> T m2 = T self \<and> depth m2 = depth self
       \<and> encoded_Y m2 = encoded_Y self \<and> number_of_clauses m2 = number_of_clauses self
       \<and> number_of_state_bits m2 = number_of_state_bits self
       \<and> ta_state m2 = ta_state self \<and> clause_weights m2 = clause_weights self
       \<and> graphs_signature_test m2 = graphs_signature_test self"
  by (cases "np_array_equal (graphs_signature_train self) (signature g)")
    (auto simp: bind_train_graphs_def ebind_eq_Inr)

lemma bind_encoded_Y_keeps:
  "number_of_outputs (bind_encoded_Y E self encoded) = number_of_outputs self \<and>
   T (bind_encoded_Y E self encoded) = T self \<and>
   depth (bind_encoded_Y E self encoded) = depth self \<and>
   encoded_Y (bind_encoded_Y E self encoded) = encoded \<and>
   number_of_clauses (bind_encoded_Y E self encoded) = number_of_clauses self \<and>
   number_of_state_bits (bind_encoded_Y E self encoded) = number_of_state_bits self \<and>
   ta_state (bind_encoded_Y E self encoded) = ta_state self \<and>
   clause_weights (bind_encoded_Y E self encoded) = clause_weights self \<and>
   graphs_signature_test (bind_encoded_Y E self encoded) = graphs_signature_test self"
  by (simp add: bind_encoded_Y_def np_array_equal_def)

lemma p_init_fit_keeps:
  assumes "p_init_fit E self g encoded incremental = Inr self'"
  shows "number_of_outputs self' = number_of_outputs self \<and> T self' = T self \<and>
     depth self' = depth self \<and> encoded_Y self' = encoded \<and>
     number_of_clauses self' = number_of_clauses self \<and>
     number_of_state_bits self' = number_of_state_bits self \<and>
     ta_state self' = ta_state self \<and> clause_weights self' = clause_weights self \<and>
     graphs_signature_test self' = graphs_signature_test self"
proof -
  from assms obtain m1 m2 where s1: "init_or_reset E self g incremental = Inr m1"
    and s2: "bind_train_graphs E m1 g = Inr m2" and s3: "self' = bind_encoded_Y E m2 encoded"
    by (auto simp: p_init_fit_def ebind_eq_Inr)
  show ?thesis
    using init_or_reset_keeps [OF s1] bind_train_graphs_keeps [OF s2]
      bind_encoded_Y_keeps [of E m2 encoded] unfolding s3 by simp
qed

lemma p_fit_keeps:
  assumes "p_fit E self g encoded epochs incremental = Inr self'"
  shows "number_of_outputs self' = number_of_outputs self \<and> T self' = T self \<and>
     depth self' = depth self \<and> encoded_Y self' = encoded \<and>
     number_of_clauses self' = number_of_clauses self \<and>
     number_of_state_bits self' = number_of_state_bits self \<and>
     ta_state self' = [] \<and> clause_weights self' = [] \<and>
     graphs_signature_test self' = graphs_signature_test self"
proof -
  from assms obtain m1 k m2 where a: "p_init_fit E self g encoded incremental = Inr m1"
    and b: "foldE (\<lambda>epoch. foldE (fit_example g k) [0..<number_of_graphs g]) [0..<epochs] m1
             = Inr m2"
    and c: "self' = m2\<lparr>ta_state := [], clause_weights := []\<rparr>"
    by (auto simp: p_fit_def ebind_eq_Inr split: if_splits)
  have "settings m2 = settings m1"
    by (rule foldE_settings [OF b]) (erule foldE_settings, erule fit_example_settings)
  then have "number_of_outputs m2 = number_of_outputs m1 \<and> T m2 = T m1 \<and>
     depth m2 = depth m1 \<and> encoded_Y m2 = encoded_Y m1 \<and>
     number_of_clauses m2 = number_of_clauses m1 \<and>
     number_of_state_bits m2 = number_of_state_bits m1 \<and>
     graphs_signature_test m2 = graphs_signature_test m1"
    by (metis settings_fields)
  with p_init_fit_keeps [OF a] c show ?thesis by simp
qed

section \<open>The target arrays\<close>

lemma fold_update_length:
  "length (fold (\<lambda>j d. d[f j := v j]) js d) = length d"
  by (induction js arbitrary: d) simp_all

lemma fold_update_other:
  "p \<notin> f ` set js \<Longrightarrow> fold (\<lambda>j d. d[f j := v j]) js d ! p = d ! p"
  by (induction js arbitrary: d) auto

lemma fold_update_hit:
  "j \<in> set js \<Longrightarrow> inj_on f (set js) \<Longrightarrow> f j < length d \<Longrightarrow>
     fold (\<lambda>j d. d[f j := v j]) js d ! f j = v j"
proof (induction js arbitrary: d)
  case Nil
  then show ?case by simp
next
  case (Cons a js)
  show ?case
  proof (cases "j \<in> set js")
    case True
    with Cons show ?thesis by (simp add: inj_on_def)
  next
    case False
    with Cons.prems have ja: "j = a" by simp
    from False Cons.prems(2) ja have "f a \<notin> f ` set js"
      by (auto simp: inj_on_def)
    with Cons.prems(3) ja show ?thesis by (simp add: fold_update_other)
  qed
qed

lemma cell_index_eq:
  fixes k :: nat
  assumes "i < k" "i' < k" "j * k + i = j' * k + i'"
  shows "j = j' \<and> i = i'"
proof -
  from assms have "(j * k + i) div k = (j' * k + i') div k" by simp
  with assms(1,2) have "j = j'" by simp
  with assms(3) show ?thesis by simp
qed

lemma cell_index_less:
  fixes k :: nat
  assumes "j < n" "i < k"
  shows "j * k + i < n * k"
proof -
  from assms have "j * k + i < j * k + k" by simp
  also have "\<dots> = Suc j * k" by simp
  also from assms(1) have "\<dots> \<le> n * k" by (intro mult_le_mono1) simp
  finally show ?thesis .
qed

lemma set_column_cell:
  assumes "length (data a) = length xs * k" and "i < k" and "i' < k" and "j < length xs"
  shows "data (set_column k a i xs) ! (j * k + i') =
           (if i' = i then int32 (xs ! j) else data a ! (j * k + i'))"
proof (cases "i' = i")
  case True
  have inj: "inj_on (\<lambda>j. j * k + i) (set [0..<length xs])"
    using assms(2) by (auto simp: inj_on_def dest: cell_index_eq)
  have "j * k + i < length (data a)"
    using assms by (simp add: cell_index_less)
  with assms(4) inj True show ?thesis
    unfolding set_column_def
    by (simp add: fold_update_hit [where f = "\<lambda>j. j * k + i" and v = "\<lambda>j. int32 (xs ! j)"])
next
  case False
  then have "j * k + i' \<notin> (\<lambda>j. j * k + i) ` set [0..<length xs]"
    using assms(2,3) by (auto dest: cell_index_eq)
  with False show ?thesis
    unfolding set_column_def
    by (simp add: fold_update_other [where f = "\<lambda>j. j * k + i"])
qed

lemma set_column_shape:
  "shape (set_column k a i xs) = shape a \<and> length (data (set_column k a i xs)) = length (data a)"
  by (simp add: set_column_def fold_update_length)

lemma fold_set_column:
  assumes "\<And>i. length (cols i) = n" and "length (data a0) = n * k" and "m \<le> k"
  shows "shape (fold (\<lambda>i a. set_column k a i (cols i)) [0..<m] a0) = shape a0 \<and>
         length (data (fold (\<lambda>i a. set_column k a i (cols i)) [0..<m] a0)) = n * k \<and>
         (\<forall>j<n. \<forall>i'<k. data (fold (\<lambda>i a. set_column k a i (cols i)) [0..<m] a0) ! (j * k + i') =
             (if i' < m then int32 (cols i' ! j) else data a0 ! (j * k + i')))"
  using assms(3)
proof (induction m)
  case 0
  then show ?case by (simp add: assms(2))
next
  case (Suc m)
  let ?a = "fold (\<lambda>i a. set_column k a i (cols i)) [0..<m] a0"
  from Suc have ih: "shape ?a = shape a0" "length (data ?a) = n * k"
    "\<forall>j<n. \<forall>i'<k. data ?a ! (j * k + i') =
         (if i' < m then int32 (cols i' ! j) else data a0 ! (j * k + i'))"
    by simp_all
  have len: "length (data ?a) = length (cols m) * k" using ih(2) assms(1) by simp
  have "data (set_column k ?a m (cols m)) ! (j * k + i') =
          (if i' < Suc m then int32 (cols i' ! j) else data a0 ! (j * k + i'))"
    if "j < n" "i' < k" for j i'
    using set_column_cell [OF len, of m i' j] that Suc.prems ih(3) assms(1)
    by (auto simp: less_Suc_eq)
  then show ?case
    using ih set_column_shape [of k ?a m "cols m"] by simp
qed

lemma int32_id: "- (2 ^ 31) \<le> x \<Longrightarrow> x < 2 ^ 31 \<Longrightarrow> int32 x = x"
  by (simp add: int32_def sint_sbintrunc' signed_take_bit_int_eq_self)

lemma np_max_Inr: "np_max ys = Inr m \<Longrightarrow> ys \<noteq> [] \<and> m = Max (set ys)"
  by (cases ys) (auto simp: np_max_def Max.set_eq_fold [symmetric])

lemma int32_eq_iff: "int32 x = x \<longleftrightarrow> - (2 ^ 31) \<le> x \<and> x < 2 ^ 31"
  by (simp add: int32_def sint_sbintrunc' signed_take_bit_int_eq_self_iff)

lemma int32_both: "int32 x = x \<and> int32 (- x) = - x \<longleftrightarrow> - (2 ^ 31) < x \<and> x < 2 ^ 31"
  unfolding int32_eq_iff by linarith

lemma multiclass_encoded_Y_cells:
  "shape (multiclass_encoded_Y E t Y k) = [length Y, k] \<and>
   length (data (multiclass_encoded_Y E t Y k)) = length Y * k \<and>
   (\<forall>j<length Y. \<forall>i<k. data (multiclass_encoded_Y E t Y k) ! (j * k + i) =
       (if Y ! j = int i then int32 t else int32 (- t)))"
proof -
  have l: "length (np_where_eq Y (int i) t (- t)) = length Y" for i
    by (simp add: np_where_eq_def)
  have c: "int32 (np_where_eq Y (int i) t (- t) ! j) =
             (if Y ! j = int i then int32 t else int32 (- t))"
    if "j < length Y" for i j
    using that by (simp add: np_where_eq_def)
  show ?thesis
    unfolding multiclass_encoded_Y_def
    using fold_set_column [where cols = "\<lambda>i. np_where_eq Y (int i) t (- t)" and n = "length Y"
        and k = k and m = k
        and ?a0.0 = "\<lparr>shape = [length Y, k], data = map (np_empty E) [0..<length Y * k]\<rparr>", OF l]
    by (simp add: c)
qed

lemma output_encoded_Y_cells:
  "output_encoded_Y t Y =
     \<lparr>shape = shape Y, data = map (\<lambda>y. if y = 1 then int32 t else int32 (- t)) (data Y)\<rparr>"
  by (simp add: output_encoded_Y_def np_where_eq_def if_distrib)

section \<open>Evaluation and training return\<close>

lemma item_simps [simp]: "i < length xs \<Longrightarrow> item xs i = Inr (xs ! i)"
  by (simp add: item_def)

lemma foldE_succeeds:
  assumes "I st" and "\<And>x a. x \<in> set xs \<Longrightarrow> I a \<Longrightarrow> \<exists>b. f x a = Inr b \<and> I b"
  shows "\<exists>st'. foldE f xs st = Inr st' \<and> I st'"
  using assms
proof (induction xs arbitrary: st)
  case Nil
  then show ?case by simp
next
  case (Cons x xs)
  from Cons.prems obtain b where b: "f x st = Inr b" "I b" by fastforce
  from Cons.IH [OF b(2)] Cons.prems(2) obtain st' where "foldE f xs b = Inr st'" "I st'"
    by auto
  with b show ?case by simp
qed

lemma assign_clause_X_gpu [simp]: "clause_X_gpu (assign b p v) = clause_X_gpu b"
  by (cases p) (simp_all add: assign_def)

lemma message_round_succeeds:
  assumes "eval_ready self b" and "d < nat (depth self - 1)"
  shows "\<exists>st'. message_round K n ni ei d (c, x, self, b) = Inr st' \<and>
           eval_ready (fst (snd (snd st'))) (snd (snd (snd st'))) \<and>
           depth (fst (snd (snd st'))) = depth self"
  using assms
  by (auto simp: eval_ready_def dev_ready_def message_round_def Let_def case_prod_unfold)

lemma foldE_message_round_succeeds:
  assumes "eval_ready self b" and "m \<le> nat (depth self - 1)"
  shows "\<exists>st'. foldE (message_round K n ni ei) [0..<m] (c, x, self, b) = Inr st' \<and>
           eval_ready (fst (snd (snd st'))) (snd (snd (snd st'))) \<and>
           depth (fst (snd (snd st'))) = depth self"
proof (rule foldE_succeeds [where I = "\<lambda>st. eval_ready (fst (snd (snd st))) (snd (snd (snd st))) \<and>
           depth (fst (snd (snd st))) = depth self"])
  show "eval_ready (fst (snd (snd (c, x, self, b)))) (snd (snd (snd (c, x, self, b)))) \<and>
        depth (fst (snd (snd (c, x, self, b)))) = depth self"
    using assms by simp
next
  fix d and a :: "cno_ptr \<times> cno_ptr \<times> model \<times> graph_buffers"
  assume d: "d \<in> set [0..<m]"
    and a: "eval_ready (fst (snd (snd a))) (snd (snd (snd a))) \<and> depth (fst (snd (snd a))) = depth self"
  obtain c1 x1 s1 b1 where a': "a = (c1, x1, s1, b1)" by (cases a) auto
  from d assms(2) a a' have "d < nat (depth s1 - 1)" by simp
  from message_round_succeeds [OF _ this, of b1 K n ni ei c1 x1] a a'
  show "\<exists>b. message_round K n ni ei d a = Inr b \<and>
         (eval_ready (fst (snd (snd b))) (snd (snd (snd b))) \<and> depth (fst (snd (snd b))) = depth self)"
    by auto
qed

lemma p_evaluate_succeeds:
  assumes "eval_ready self b"
  shows "\<exists>r. p_evaluate self b n ni ei c x = Inr r \<and> eval_ready (fst (snd r)) (snd (snd r))"
proof -
  from assms obtain k cs K ta ia where k: "number_of_outputs self = Some k" "0 \<le> k"
    and cs: "class_sum_gpu self = Some cs" and K: "module self = Some K"
    and ta: "ta_state_gpu self = Some ta" and ia: "number_of_include_actions self = Some ia"
    by (auto simp: eval_ready_def dev_ready_def)
  obtain out ia' where cm: "calculate_messages K (memcpy_dtoh (ta_words (compiled_with K)) ta) n ni
            (encoded_X_gpu b) = (out, ia')"
    by (cases "calculate_messages K (memcpy_dtoh (ta_words (compiled_with K)) ta) n ni
            (encoded_X_gpu b)") auto
  let ?self1 = "self\<lparr>class_sum_gpu := Some (memcpy_htod cs (replicate (nat k) 0)),
                     number_of_include_actions := Some ia',
                     launches := launches self @ [Calculate_messages c]\<rparr>"
  have r1: "eval_ready ?self1 (assign b c out)"
    using assms by (simp add: eval_ready_def dev_ready_def)
  from foldE_message_round_succeeds [OF r1, of "nat (depth self - 1)" K n ni ei c x]
  obtain st' where f: "foldE (message_round K n ni ei) [0..<nat (depth self - 1)]
       (c, x, ?self1, assign b c out) = Inr st'"
    and r2: "eval_ready (fst (snd (snd st'))) (snd (snd (snd st')))"
    by auto
  obtain c2 x2 s2 b2 where st': "st' = (c2, x2, s2, b2)" by (cases st') auto
  from r2 st' obtain w cs2 where w: "clause_weights_gpu s2 = Some w"
    and cs2: "class_sum_gpu s2 = Some cs2"
    by (auto simp: eval_ready_def dev_ready_def)
  have "p_evaluate self b n ni ei c x =
      Inr (c2, s2\<lparr>class_sum_gpu :=
                   Some (evaluate K (deref b2 c2)
                           (memcpy_dtoh (weight_words (compiled_with K)) w) n cs2),
                 launches := launches s2 @ [Evaluate c2]\<rparr>, b2)"
    unfolding p_evaluate_def using k cs K ta ia cm f st' w cs2
    by (simp add: Let_def)
  moreover have "eval_ready (s2\<lparr>class_sum_gpu :=
                   Some (evaluate K (deref b2 c2)
                           (memcpy_dtoh (weight_words (compiled_with K)) w) n cs2),
                 launches := launches s2 @ [Evaluate c2]\<rparr>) b2"
    using r2 st' by (simp add: eval_ready_def dev_ready_def)
  ultimately show ?thesis by simp
qed

lemma eval_frame_update [simp]:
  "eval_frame (self\<lparr>class_sum_gpu := a1\<rparr>) = eval_frame self"
  "eval_frame (self\<lparr>number_of_include_actions := a2\<rparr>) = eval_frame self"
  "eval_frame (self\<lparr>launches := a3\<rparr>) = eval_frame self"
  by (simp_all add: eval_frame_def)

lemma eval_frame_fields:
  "clause_node_gpu (eval_frame self) = clause_node_gpu self"
  "encoded_Y_gpu (eval_frame self) = encoded_Y_gpu self"
  "class_clause_update_gpu (eval_frame self) = class_clause_update_gpu self"
  "depth (eval_frame self) = depth self"
  "s (eval_frame self) = s self"
  "ta_state_gpu (eval_frame self) = ta_state_gpu self"
  "clause_weights_gpu (eval_frame self) = clause_weights_gpu self"
  "message_ta_state_gpu (eval_frame self) = message_ta_state_gpu self"
  "hypervectors_gpu (eval_frame self) = hypervectors_gpu self"
  "module (eval_frame self) = module self"
  "number_of_outputs (eval_frame self) = number_of_outputs self"
  "test_gpu (eval_frame self) = test_gpu self"
  "train_gpu (eval_frame self) = train_gpu self"
  "g_state (eval_frame self) = g_state self"
  "initialized (eval_frame self) = initialized self"
  "graphs_signature_test (eval_frame self) = graphs_signature_test self"
  "number_of_clauses (eval_frame self) = number_of_clauses self"
  by (simp_all add: eval_frame_def)

lemma message_round_eval_frame:
  "message_round K n ni ei d (c, x, self, b) = Inr (c', x', self', b') \<Longrightarrow>
     eval_frame self' = eval_frame self"
  by (auto simp: message_round_def ebind_eq_Inr Let_def case_prod_unfold)

lemma foldE_message_round_eval_frame:
  assumes "foldE (message_round K n ni ei) ds (c, x, self, b) = Inr (c', x', self', b')"
  shows "eval_frame self' = eval_frame self"
proof -
  have "(\<lambda>st. eval_frame (fst (snd (snd st))) = eval_frame self) (c', x', self', b')"
    by (rule foldE_invariant [OF assms]) (auto dest: message_round_eval_frame)
  then show ?thesis by simp
qed

lemma p_evaluate_eval_frame:
  "p_evaluate self b n ni ei c x = Inr (c', self', b') \<Longrightarrow> eval_frame self' = eval_frame self"
  by (auto simp: p_evaluate_def ebind_eq_Inr Let_def case_prod_unfold
      split: if_splits dest!: foldE_message_round_eval_frame)

lemma launch_update_message_succeeds:
  assumes "fit_ready self" and "d < nat (depth self - 1)"
  shows "\<exists>self'. launch_update_message n d self = Inr self' \<and> fit_ready self' \<and>
           depth self' = depth self"
  using assms
  by (auto simp: fit_ready_def eval_ready_def dev_ready_def launch_update_message_def case_prod_unfold)

lemma foldE_launch_update_message_succeeds:
  assumes "fit_ready self" and "m = nat (depth self - 1)"
  shows "\<exists>self'. foldE (launch_update_message n) [0..<m] self = Inr self' \<and> fit_ready self'"
proof -
  have "\<exists>self'. foldE (launch_update_message n) [0..<nat (depth self - 1)] self = Inr self' \<and>
           (fit_ready self' \<and> depth self' = depth self)"
  proof (rule foldE_succeeds [where I = "\<lambda>m. fit_ready m \<and> depth m = depth self"])
    show "fit_ready self \<and> depth self = depth self" using assms by simp
  next
    fix d a
    assume "d \<in> set [0..<nat (depth self - 1)]" and a: "fit_ready a \<and> depth a = depth self"
    then have "d < nat (depth a - 1)" by simp
    from launch_update_message_succeeds [OF _ this, of n] a
    show "\<exists>b. launch_update_message n d a = Inr b \<and> (fit_ready b \<and> depth b = depth self)"
      by auto
  qed
  then show ?thesis unfolding assms(2) by blast
qed

lemma fit_example_succeeds:
  assumes "fit_ready self" and "graphs_ok g" and "e < number_of_graphs g"
  shows "\<exists>self'. fit_example g k e self = Inr self' \<and> fit_ready self'"
proof -
  from assms(1) obtain b cs where b: "train_gpu self = Some b" and r: "eval_ready self b"
    and cs: "class_sum_gpu self = Some cs"
    by (auto simp: fit_ready_def eval_ready_def dev_ready_def)
  from assms(2,3) have i1: "e < length (number_of_graph_nodes g)"
    and i2: "e < length (node_index g)" and i3: "node_index g ! e < length (edge_index g)"
    by (auto simp: graphs_ok_def list_all_iff)
  let ?n = "number_of_graph_nodes g ! e" and ?ni = "node_index g ! e"
  let ?ei = "edge_index g ! (node_index g ! e)"
  let ?self1 = "self\<lparr>class_sum_gpu := Some (memcpy_htod cs (replicate k 0))\<rparr>"
  have r1: "eval_ready ?self1 b" using r by (simp add: eval_ready_def dev_ready_def)
  from p_evaluate_succeeds [OF r1, of ?n ?ni ?ei Current_clause_node_output
      Next_clause_node_output]
  obtain c2 s2 b2 where ev: "p_evaluate ?self1 b ?n ?ni ?ei Current_clause_node_output
      Next_clause_node_output = Inr (c2, s2, b2)" and r2: "eval_ready s2 b2"
    by force
  from p_evaluate_eval_frame [OF ev] have "eval_frame s2 = eval_frame self" by simp
  then have keep: "clause_node_gpu s2 = clause_node_gpu self"
    "encoded_Y_gpu s2 = encoded_Y_gpu self"
    "class_clause_update_gpu s2 = class_clause_update_gpu self"
    "depth s2 = depth self" "s s2 = s self"
    by (metis eval_frame_fields)+
  from assms(1) keep obtain cn ey ccu where cn: "clause_node_gpu s2 = Some cn"
    and ey: "encoded_Y_gpu s2 = Some ey" and ccu: "class_clause_update_gpu s2 = Some ccu"
    and sl: "nat (depth s2 - 1) < length (s s2)"
    by (auto simp: fit_ready_def eval_ready_def dev_ready_def)
  from r2 obtain K w cs2 ta ia where K: "module s2 = Some K" and w: "clause_weights_gpu s2 = Some w"
    and cs2: "class_sum_gpu s2 = Some cs2" and ta: "ta_state_gpu s2 = Some ta"
    and ia: "number_of_include_actions s2 = Some ia"
    by (auto simp: eval_ready_def dev_ready_def)
  from sl have s0: "0 < length (s s2)" by (cases "s s2") simp_all
  show ?thesis
    unfolding fit_example_def
    using cs i1 i2 i3 b ev cn ey ccu K w cs2 ta ia s0
    apply (simp add: Let_def case_prod_unfold)
    apply (rule foldE_launch_update_message_succeeds)
     apply (use r2 ey sl in \<open>simp add: fit_ready_def eval_ready_def dev_ready_def\<close>)
    apply simp
    done
qed

lemma launch_prepare_succeeds:
  assumes "dev_ready self"
  shows "\<exists>self'. launch_prepare self = Inr self' \<and> dev_ready self'"
  using assms by (auto simp: dev_ready_def launch_prepare_def case_prod_unfold)

lemma launch_prepare_message_ta_state_succeeds:
  assumes "dev_ready self" and "d < nat (depth self - 1)"
  shows "\<exists>self'. launch_prepare_message_ta_state d self = Inr self' \<and> dev_ready self' \<and>
           depth self' = depth self"
  using assms by (auto simp: dev_ready_def launch_prepare_message_ta_state_def)

lemma foldE_launch_prepare_message_ta_state_succeeds:
  assumes "dev_ready self" and "m = nat (depth self - 1)"
  shows "\<exists>self'. foldE launch_prepare_message_ta_state [0..<m] self = Inr self' \<and> dev_ready self'"
proof -
  have "\<exists>self'. foldE launch_prepare_message_ta_state [0..<nat (depth self - 1)] self = Inr self' \<and>
           (dev_ready self' \<and> depth self' = depth self)"
  proof (rule foldE_succeeds [where I = "\<lambda>m. dev_ready m \<and> depth m = depth self"])
    show "dev_ready self \<and> depth self = depth self" using assms by simp
  next
    fix d a
    assume "d \<in> set [0..<nat (depth self - 1)]" and a: "dev_ready a \<and> depth a = depth self"
    then have "d < nat (depth a - 1)" by simp
    from launch_prepare_message_ta_state_succeeds [OF _ this] a
    show "\<exists>b. launch_prepare_message_ta_state d a = Inr b \<and> (dev_ready b \<and> depth b = depth self)"
      by auto
  qed
  then show ?thesis unfolding assms(2) by blast
qed

lemma p_init_succeeds:
  assumes "number_of_outputs self = Some k" and "0 \<le> k" and "negative_clauses self \<noteq> None"
    and "nat (depth self - 1) < length (s self)"
  shows "\<exists>self'. p_init E self g = Inr self' \<and> dev_ready self'"
  using assms
  by (auto simp: p_init_def allocate_gpu_memory_def Let_def dev_ready_def)

lemma init_or_reset_fresh:
  assumes "\<not> initialized self" and "number_of_outputs self = Some k" and "0 \<le> k"
    and "negative_clauses self \<noteq> None" and "nat (depth self - 1) < length (s self)"
  shows "\<exists>m. init_or_reset E self g incremental = Inr m \<and> dev_ready m \<and>
           graphs_signature_train m = graphs_signature_train self \<and>
           encoded_Y m = encoded_Y self"
proof -
  from p_init_succeeds [OF assms(2-5)] obtain m0 where a: "p_init E self g = Inr m0"
    and r0: "dev_ready m0" by blast
  from launch_prepare_succeeds [OF r0] obtain m1 where b: "launch_prepare m0 = Inr m1"
    and r1: "dev_ready m1" by blast
  from foldE_launch_prepare_message_ta_state_succeeds [OF r1 refl] obtain m2 where
    c: "foldE launch_prepare_message_ta_state [0..<nat (depth m1 - 1)] m1 = Inr m2"
    and r2: "dev_ready m2" by blast
  have "settings m2 = settings m0"
    using foldE_settings [OF c launch_prepare_message_ta_state_settings]
      launch_prepare_settings [OF b] by simp
  then have "graphs_signature_train m2 = graphs_signature_train m0 \<and> encoded_Y m2 = encoded_Y m0"
    by (metis settings_fields)
  with p_init_keeps [OF a] r2 a b c assms(1) show ?thesis
    by (simp add: init_or_reset_def)
qed

lemma bind_train_graphs_fresh:
  assumes "dev_ready self" and "\<not> np_array_equal (graphs_signature_train self) (signature g)"
  shows "\<exists>m. bind_train_graphs E self g = Inr m \<and> dev_ready m \<and>
           (\<exists>b. train_gpu m = Some b \<and> eval_ready m b) \<and> class_clause_update_gpu m \<noteq> None \<and>
           encoded_Y m = encoded_Y self"
  using assms
  by (auto simp: bind_train_graphs_def dev_ready_def eval_ready_def)

lemma bind_encoded_Y_fresh:
  assumes "\<not> np_array_equal (encoded_Y self) encoded"
    and "\<exists>b. train_gpu self = Some b \<and> eval_ready self b"
    and "class_clause_update_gpu self \<noteq> None"
  shows "fit_ready (bind_encoded_Y E self encoded)"
  using assms
  by (auto simp: bind_encoded_Y_def fit_ready_def dev_ready_def eval_ready_def)

lemma p_fit_succeeds:
  assumes "\<not> initialized self" and "number_of_outputs self = Some k" and "0 \<le> k"
    and "negative_clauses self \<noteq> None" and "nat (depth self - 1) < length (s self)"
    and "\<not> np_array_equal (graphs_signature_train self) (signature g)"
    and "\<not> np_array_equal (encoded_Y self) encoded"
    and "graphs_ok g"
  shows "\<exists>self'. p_fit E self g encoded epochs incremental = Inr self' \<and> dev_ready self'"
proof -
  from init_or_reset_fresh [OF assms(1-5)] obtain m1 where
    a: "init_or_reset E self g incremental = Inr m1" and r1: "dev_ready m1"
    and k1: "graphs_signature_train m1 = graphs_signature_train self" "encoded_Y m1 = encoded_Y self"
    by blast
  from bind_train_graphs_fresh [OF r1, of g E] assms(6) k1 obtain m2 where
    b: "bind_train_graphs E m1 g = Inr m2"
    and r2: "\<exists>b. train_gpu m2 = Some b \<and> eval_ready m2 b" "class_clause_update_gpu m2 \<noteq> None"
    and k2: "encoded_Y m2 = encoded_Y self"
    by auto
  from bind_encoded_Y_fresh [OF _ r2, of encoded E] assms(7) k2
  have r3: "fit_ready (bind_encoded_Y E m2 encoded)" by simp
  have i: "p_init_fit E self g encoded incremental = Inr (bind_encoded_Y E m2 encoded)"
    using a b by (simp add: p_init_fit_def)
  from p_init_fit_keeps [OF i] assms(2)
  have o: "number_of_outputs (bind_encoded_Y E m2 encoded) = Some k" by simp
  have "\<exists>self'. foldE (\<lambda>epoch. foldE (fit_example g (nat k)) [0..<number_of_graphs g])
          [0..<epochs] (bind_encoded_Y E m2 encoded) = Inr self' \<and> fit_ready self'"
  proof (rule foldE_succeeds [where I = fit_ready, OF r3])
    fix epoch a
    assume "fit_ready a"
    then show "\<exists>b. foldE (fit_example g (nat k)) [0..<number_of_graphs g] a = Inr b \<and> fit_ready b"
      by (rule foldE_succeeds) (use assms(8) in \<open>auto intro: fit_example_succeeds\<close>)
  qed
  then obtain m3 where f: "foldE (\<lambda>epoch. foldE (fit_example g (nat k)) [0..<number_of_graphs g])
          [0..<epochs] (bind_encoded_Y E m2 encoded) = Inr m3" and r4: "fit_ready m3"
    by blast
  from r4 have "dev_ready (m3\<lparr>ta_state := [], clause_weights := []\<rparr>)"
    by (auto simp: fit_ready_def eval_ready_def dev_ready_def)
  then show ?thesis
    using i o f assms(3) by (simp add: p_fit_def)
qed

section \<open>Models that were never fitted\<close>

lemma p_score_init_uninitialized:
  "\<not> initialized self \<Longrightarrow> p_score_init E self g = Inl (SystemExit (- 1))"
  by (simp add: p_score_init_def)

text \<open>
  Claim C8: on a model that no \<open>fit\<close> has initialised, \<open>score\<close>, \<open>predict\<close> and \<open>transform\<close>
  of every subclass end in \<open>sys.exit(-1)\<close> (after printing the error), whatever the graph
  set; none of them returns a value.
\<close>

theorem unfitted_model_exits:
  assumes "\<not> initialized self"
  shows "p_score E self g = Inl (SystemExit (- 1)) \<and>
         transform E self g = Inl (SystemExit (- 1)) \<and>
         MultiClassGraphTsetlinMachine_score E self g = Inl (SystemExit (- 1)) \<and>
         MultiClassGraphTsetlinMachine_predict E self g = Inl (SystemExit (- 1)) \<and>
         MultiOutputGraphTsetlinMachine_score E self g = Inl (SystemExit (- 1)) \<and>
         MultiOutputGraphTsetlinMachine_predict E self g = Inl (SystemExit (- 1)) \<and>
         GraphTsetlinMachine_score E self g = Inl (SystemExit (- 1)) \<and>
         GraphTsetlinMachine_predict E self g = Inl (SystemExit (- 1))"
  using assms
  by (simp add: p_score_def transform_def p_score_init_uninitialized
      MultiClassGraphTsetlinMachine_score_def MultiClassGraphTsetlinMachine_predict_def
      MultiOutputGraphTsetlinMachine_score_def MultiOutputGraphTsetlinMachine_predict_def
      GraphTsetlinMachine_score_def GraphTsetlinMachine_predict_def)

lemma CommonTsetlinMachine_init_uninitialized:
  "CommonTsetlinMachine_init np_random g0 nc T' s' q' mil btpf nsb depth' ms mb dh = Inr self
     \<Longrightarrow> \<not> initialized self"
  by (auto simp: CommonTsetlinMachine_init_def Let_def ebind_eq_Inr split: if_splits)

lemma demo_multiclass_Inr: "\<exists>self. demo_multiclass = Inr self \<and> \<not> initialized self"
  by (auto simp: demo_multiclass_def MultiClassGraphTsetlinMachine_init_def ebind_eq_Inr
      CommonTsetlinMachine_init_def Let_def random_choice_def numeral_2_eq_2)

theorem unfitted_model_exits_witness:
  "ebind demo_multiclass (\<lambda>self. MultiClassGraphTsetlinMachine_predict demo_env self demo_graphs)
     = Inl (SystemExit (- 1)) \<and>
   ebind demo_multiclass (\<lambda>self. transform demo_env self demo_graphs) = Inl (SystemExit (- 1))"
proof -
  from demo_multiclass_Inr obtain self where h: "demo_multiclass = Inr self"
    and u: "\<not> initialized self" by blast
  from unfitted_model_exits [OF u, of demo_env demo_graphs] show ?thesis unfolding h ebind_simps by simp
qed

text \<open>
  Claim C10: when \<open>MultiClassGraphTsetlinMachine.fit\<close> returns, the number of outputs is
  \<open>max(Y) + 1\<close> and the target array has one column per index in \<open>[0, max(Y)]\<close>, also for
  labels that do not occur in \<open>Y\<close>. The witness has \<open>Y = [0, 2]\<close>: two distinct labels, three
  outputs.
\<close>

theorem multiclass_number_of_outputs:
  assumes "MultiClassGraphTsetlinMachine_fit E self g Y epochs incremental = Inr self'"
  shows "Y \<noteq> [] \<and> number_of_outputs self' = Some (Max (set Y) + 1) \<and>
         shape (encoded_Y self') = [length Y, nat (Max (set Y) + 1)]"
proof -
  from assms obtain largest where m: "np_max Y = Inr largest"
    and f: "p_fit E (self\<lparr>number_of_outputs := Some (largest + 1), max_y := Some None,
              min_y := Some None\<rparr>) g
              (multiclass_encoded_Y E (T self) Y (nat (largest + 1))) epochs incremental = Inr self'"
    by (auto simp: MultiClassGraphTsetlinMachine_fit_def ebind_eq_Inr Let_def split: if_splits)
  from np_max_Inr [OF m] p_fit_keeps [OF f] show ?thesis
    by (simp add: multiclass_encoded_Y_def
        fold_set_column [where n = "length Y" and m = "nat (Max (set Y) + 1)", THEN conjunct1]
        np_where_eq_def)
qed

lemma demo_fit_multiclass:
  "\<not> isl (ebind demo_multiclass (\<lambda>self.
      MultiClassGraphTsetlinMachine_fit demo_env self demo_graphs [0, 2] 1 False))"
  by code_simp

theorem multiclass_number_of_outputs_witness:
  "map_sum id (\<lambda>self. (number_of_outputs self, shape (encoded_Y self)))
     (ebind demo_multiclass (\<lambda>self.
        MultiClassGraphTsetlinMachine_fit demo_env self demo_graphs [0, 2] 1 False))
   = Inr (Some 3, [2, 3])"
proof -
  from not_isl_ebind [OF demo_fit_multiclass] obtain m0 m1 where h0: "demo_multiclass = Inr m0"
    and h1: "MultiClassGraphTsetlinMachine_fit demo_env m0 demo_graphs [0, 2] 1 False = Inr m1"
    by blast
  from multiclass_number_of_outputs [OF h1] show ?thesis unfolding h0 ebind_simps h1 by simp
qed

text \<open>
  Claim C5, as amended. The target arrays are \<open>np.int32\<close> arrays, so what is stored is the
  threshold reduced to 32 bits, two's complement: the target array that
  \<open>MultiClassGraphTsetlinMachine.fit\<close> stores has \<open>int32 T\<close> in the column of the label of each
  example and \<open>int32 (-T)\<close> in every other column, and the target arrays of
  \<open>MultiOutputGraphTsetlinMachine.fit\<close> and \<open>GraphTsetlinMachine.fit\<close> have, element by
  element, \<open>int32 T\<close> where \<open>Y\<close> is 1 and \<open>int32 (-T)\<close> elsewhere. These two values are \<open>+T\<close>
  and \<open>-T\<close> exactly when \<open>-2^31 < T < 2^31\<close>.
\<close>

theorem fit_target_encoding:
  "(MultiClassGraphTsetlinMachine_fit E self g Y epochs incremental = Inr self1 \<longrightarrow>
      shape (encoded_Y self1) = [length Y, nat (Max (set Y) + 1)] \<and>
      (\<forall>j<length Y. \<forall>i<nat (Max (set Y) + 1).
         data (encoded_Y self1) ! (j * nat (Max (set Y) + 1) + i) =
           (if Y ! j = int i then int32 (T self) else int32 (- T self)))) \<and>
   (MultiOutputGraphTsetlinMachine_fit E self g Yo epochs incremental = Inr self2 \<longrightarrow>
      shape (encoded_Y self2) = shape Yo \<and>
      data (encoded_Y self2) =
        map (\<lambda>y. if y = 1 then int32 (T self) else int32 (- T self)) (data Yo)) \<and>
   (GraphTsetlinMachine_fit E self g Yo = Inr self3 \<longrightarrow>
      shape (encoded_Y self3) = shape Yo \<and>
      data (encoded_Y self3) =
        map (\<lambda>y. if y = 1 then int32 (T self) else int32 (- T self)) (data Yo)) \<and>
   (int32 (T self) = T self \<and> int32 (- T self) = - T self
      \<longleftrightarrow> - (2 ^ 31) < T self \<and> T self < 2 ^ 31)"
proof (intro conjI impI)
  assume a: "MultiClassGraphTsetlinMachine_fit E self g Y epochs incremental = Inr self1"
  then obtain largest where m: "np_max Y = Inr largest"
    and f: "p_fit E (self\<lparr>number_of_outputs := Some (largest + 1), max_y := Some None,
              min_y := Some None\<rparr>) g
              (multiclass_encoded_Y E (T self) Y (nat (largest + 1))) epochs incremental = Inr self1"
    by (auto simp: MultiClassGraphTsetlinMachine_fit_def ebind_eq_Inr Let_def split: if_splits)
  from np_max_Inr [OF m] p_fit_keeps [OF f]
  have e: "encoded_Y self1 = multiclass_encoded_Y E (T self) Y (nat (Max (set Y) + 1))" by simp
  from multiclass_encoded_Y_cells [of E "T self" Y "nat (Max (set Y) + 1)"]
  show "shape (encoded_Y self1) = [length Y, nat (Max (set Y) + 1)]"
    and "\<forall>j<length Y. \<forall>i<nat (Max (set Y) + 1).
          data (encoded_Y self1) ! (j * nat (Max (set Y) + 1) + i) =
            (if Y ! j = int i then int32 (T self) else int32 (- T self))"
    unfolding e by simp_all
next
  show "int32 (T self) = T self \<and> int32 (- T self) = - T self
          \<longleftrightarrow> - (2 ^ 31) < T self \<and> T self < 2 ^ 31"
    by (rule int32_both)
next
  note o = output_encoded_Y_cells [of "T self" Yo]
  {
    assume "MultiOutputGraphTsetlinMachine_fit E self g Yo epochs incremental = Inr self2"
    then obtain m where "p_fit E m g (output_encoded_Y (T self) Yo) epochs incremental = Inr self2"
      by (auto simp: MultiOutputGraphTsetlinMachine_fit_def ebind_eq_Inr Let_def)
    from p_fit_keeps [OF this] have e: "encoded_Y self2 = output_encoded_Y (T self) Yo" by simp
    show "shape (encoded_Y self2) = shape Yo"
      and "data (encoded_Y self2) =
             map (\<lambda>y. if y = 1 then int32 (T self) else int32 (- T self)) (data Yo)"
      unfolding e o by simp_all
  }
  {
    assume "GraphTsetlinMachine_fit E self g Yo = Inr self3"
    then obtain m where "p_fit E m g (output_encoded_Y (T self) Yo) 100 False = Inr self3"
      by (auto simp: GraphTsetlinMachine_fit_def Let_def)
    from p_fit_keeps [OF this] have e: "encoded_Y self3 = output_encoded_Y (T self) Yo" by simp
    show "shape (encoded_Y self3) = shape Yo"
      and "data (encoded_Y self3) =
             map (\<lambda>y. if y = 1 then int32 (T self) else int32 (- T self)) (data Yo)"
      unfolding e o by simp_all
  }
qed

lemma demo_fit_multioutput:
  "\<not> isl (ebind demo_multioutput (\<lambda>self.
      MultiOutputGraphTsetlinMachine_fit demo_env self demo_graphs
        \<lparr>shape = [2, 2], data = [1, 0, 0, 1]\<rparr> 1 False))"
  by code_simp

lemma CommonTsetlinMachine_init_fresh:
  assumes "CommonTsetlinMachine_init np_random g0 nc T' s' q' mil btpf nsb depth' ms mb dh = Inr self"
  shows "\<not> initialized self \<and> graphs_signature_train self = np_empty_array \<and>
         graphs_signature_test self = np_empty_array \<and> encoded_Y self = np_empty_array \<and>
         depth self = depth' \<and> T self = T' \<and> number_of_clauses self = nc \<and>
         s self = (case s' of Number x \<Rightarrow> replicate (nat depth') x | Tuple xs \<Rightarrow> xs) \<and>
         ta_state self = [] \<and> clause_weights self = [] \<and> test_gpu self = None \<and>
         number_of_state_bits self = nsb"
  using assms
  by (auto simp: CommonTsetlinMachine_init_def Let_def ebind_eq_Inr split: if_splits)

lemma subclass_init_fresh:
  assumes "MultiClassGraphTsetlinMachine_init np_random g0 nc T' s' q' mil btpf nsb depth' ms mb dh
             = Inr self \<or>
           MultiOutputGraphTsetlinMachine_init np_random g0 nc T' s' q' mil btpf nsb depth' ms mb dh
             = Inr self \<or>
           GraphTsetlinMachine_init np_random g0 nc T' s' q' mil btpf nsb depth' ms mb dh = Inr self"
  shows "\<not> initialized self \<and> graphs_signature_train self = np_empty_array \<and>
         graphs_signature_test self = np_empty_array \<and> encoded_Y self = np_empty_array \<and>
         depth self = depth' \<and> T self = T' \<and> number_of_clauses self = nc \<and>
         s self = (case s' of Number x \<Rightarrow> replicate (nat depth') x | Tuple xs \<Rightarrow> xs) \<and>
         ta_state self = [] \<and> clause_weights self = [] \<and> test_gpu self = None \<and>
         number_of_state_bits self = nsb \<and> negative_clauses self = Some 1"
proof -
  from assms obtain m where
    m: "CommonTsetlinMachine_init np_random g0 nc T' s' q' mil btpf nsb depth' ms mb dh = Inr m"
    and s: "self = m\<lparr>negative_clauses := Some 1\<rparr>"
    by (auto simp: MultiClassGraphTsetlinMachine_init_def MultiOutputGraphTsetlinMachine_init_def
        GraphTsetlinMachine_init_def ebind_eq_Inr)
  from CommonTsetlinMachine_init_fresh [OF m] show ?thesis unfolding s by simp
qed

lemma demo_models_Inr:
  "\<exists>self. demo_multiclass = Inr self" "\<exists>self. demo_multioutput = Inr self"
  "\<exists>self. demo_binary = Inr self"
  by (auto simp: demo_multiclass_def demo_multioutput_def demo_binary_def
      MultiClassGraphTsetlinMachine_init_def MultiOutputGraphTsetlinMachine_init_def
      GraphTsetlinMachine_init_def ebind_eq_Inr
      CommonTsetlinMachine_init_def Let_def random_choice_def numeral_2_eq_2)

lemma demo_models_fresh:
  assumes "demo_multiclass = Inr self \<or> demo_multioutput = Inr self \<or> demo_binary = Inr self"
  shows "\<not> initialized self \<and> graphs_signature_train self = np_empty_array \<and>
         graphs_signature_test self = np_empty_array \<and> encoded_Y self = np_empty_array \<and>
         depth self = 2 \<and> T self = 10 \<and> number_of_clauses self = 2 \<and>
         s self = [1, 1] \<and> ta_state self = [] \<and> clause_weights self = [] \<and>
         test_gpu self = None \<and> number_of_state_bits self = 2 \<and> negative_clauses self = Some 1"
  using subclass_init_fresh [of "\<lambda>i. [1, 0, 2, 3]" "\<lambda>i. 0" 2 10 "Number 1" 1 None 1 2 2 4 2 False self]
    assms
  unfolding demo_multiclass_def demo_multioutput_def demo_binary_def
  by (simp add: numeral_2_eq_2)

lemma demo_graphs_ok: "graphs_ok demo_graphs"
  by (simp add: graphs_ok_def demo_graphs_def numeral_2_eq_2)

lemma demo_fit_binary:
  assumes "demo_binary = Inr m0"
  shows "\<exists>m1. GraphTsetlinMachine_fit E m0 demo_graphs \<lparr>shape = [2], data = [1, 0]\<rparr> = Inr m1 \<and>
           dev_ready m1"
proof -
  note f = demo_models_fresh [of m0, OF disjI2, OF disjI2, OF assms]
  show ?thesis
    unfolding GraphTsetlinMachine_fit_def Let_def
    by (rule p_fit_succeeds [where k = 1])
      (use f demo_graphs_ok in
        \<open>simp_all add: np_array_equal_def np_empty_array_def demo_graphs_def output_encoded_Y_def\<close>)
qed

theorem fit_target_encoding_witness:
  "map_sum id (\<lambda>self. map (\<lambda>p. data (encoded_Y self) ! p) [0, 1, 2, 3, 4, 5])
     (ebind demo_multiclass (\<lambda>self.
        MultiClassGraphTsetlinMachine_fit demo_env self demo_graphs [0, 2] 1 False))
     = Inr [10, - 10, - 10, - 10, - 10, 10] \<and>
   map_sum id (\<lambda>self. data (encoded_Y self))
     (ebind demo_multioutput (\<lambda>self.
        MultiOutputGraphTsetlinMachine_fit demo_env self demo_graphs
          \<lparr>shape = [2, 2], data = [1, 0, 0, 1]\<rparr> 1 False))
     = Inr [10, - 10, - 10, 10] \<and>
   map_sum id (\<lambda>self. data (encoded_Y self))
     (ebind demo_binary (\<lambda>self.
        GraphTsetlinMachine_fit demo_env self demo_graphs \<lparr>shape = [2], data = [1, 0]\<rparr>))
     = Inr [10, - 10]"
proof -
  from not_isl_ebind [OF demo_fit_multiclass] obtain a0 a1 where a0: "demo_multiclass = Inr a0"
    and a1: "MultiClassGraphTsetlinMachine_fit demo_env a0 demo_graphs [0, 2] 1 False = Inr a1"
    by blast
  from not_isl_ebind [OF demo_fit_multioutput] obtain b0 b1 where b0: "demo_multioutput = Inr b0"
    and b1: "MultiOutputGraphTsetlinMachine_fit demo_env b0 demo_graphs
          \<lparr>shape = [2, 2], data = [1, 0, 0, 1]\<rparr> 1 False = Inr b1"
    by blast
  from demo_models_Inr(3) obtain c0 where c0: "demo_binary = Inr c0" by blast
  from demo_fit_binary [OF c0] obtain c1 where
    c1: "GraphTsetlinMachine_fit demo_env c0 demo_graphs \<lparr>shape = [2], data = [1, 0]\<rparr> = Inr c1"
    by blast
  have Ta: "T a0 = 10" and Tb: "T b0 = 10" and Tc: "T c0 = 10"
    using demo_models_fresh [of a0] demo_models_fresh [of b0] demo_models_fresh [of c0] a0 b0 c0
    by simp_all
  note fa = fit_target_encoding [of demo_env a0 demo_graphs "[0, 2]" 1 False a1]
  from fa [THEN conjunct2, THEN conjunct2, THEN conjunct2]
  have ia: "int32 10 = 10" "int32 (- 10) = - 10" by (simp_all add: Ta)
  from fa [THEN conjunct1, rule_format, OF a1]
  have cells: "j < 2 \<Longrightarrow> i < 3 \<Longrightarrow>
      data (encoded_Y a1) ! (j * 3 + i) = (if [0, 2] ! j = int i then 10 else - 10)" for j i
    by (simp add: Ta ia)
  have A: "map (\<lambda>p. data (encoded_Y a1) ! p) [0, 1, 2, 3, 4, 5] = [10, - 10, - 10, - 10, - 10, 10]"
    using cells [of 0 0] cells [of 0 1] cells [of 0 2] cells [of 1 0] cells [of 1 1] cells [of 1 2]
    by (simp add: numeral_2_eq_2)
  from fit_target_encoding [of demo_env b0 demo_graphs _ 1 False _
      "\<lparr>shape = [2, 2], data = [1, 0, 0, 1]\<rparr>" b1, THEN conjunct2, THEN conjunct1,
      rule_format, OF b1]
  have B: "data (encoded_Y b1) = [10, - 10, - 10, 10]" by (simp add: Tb ia)
  from fit_target_encoding [of demo_env c0 demo_graphs _ _ _ _
      "\<lparr>shape = [2], data = [1, 0]\<rparr>" _ c1, THEN conjunct2, THEN conjunct2, THEN conjunct1,
      rule_format, OF c1]
  have C: "data (encoded_Y c1) = [10, - 10]" by (simp add: Tc ia)
  show ?thesis
    unfolding a0 b0 c0 ebind_simps a1 b1 c1 using A B C by simp
qed

text \<open>
  The claim as stated fails for a threshold that does not fit \<open>np.int32\<close>: with
  \<open>T = 2147483653 = 2^31 + 5\<close> and the labels \<open>[0, 2]\<close> the column of the true class holds
  \<open>-2147483643\<close> and the other columns hold \<open>+2147483643\<close>.
\<close>

theorem target_wraps_counterexample:
  "map_sum id (\<lambda>self. (T self, map (\<lambda>p. data (encoded_Y self) ! p) [0, 1, 2, 3, 4, 5]))
     (ebind wide_multiclass (\<lambda>self.
        MultiClassGraphTsetlinMachine_fit demo_env self demo_graphs [0, 2] 1 False))
     = Inr (2147483653,
            [- 2147483643, 2147483643, 2147483643, 2147483643, 2147483643, - 2147483643])"
  by code_simp

section \<open>Scores and predictions\<close>

lemma set_row_shape:
  assumes "e < n" and "length (data a) = n * k" and "length xs = k"
  shows "shape (set_row k a e xs) = shape a \<and> length (data (set_row k a e xs)) = n * k"
proof -
  from assms(1) have "Suc e * k \<le> n * k" by (intro mult_le_mono1) simp
  then have "e * k + k \<le> n * k" by simp
  with assms(2,3) show ?thesis by (simp add: set_row_def)
qed

lemma row_length:
  assumes "e < n" and "length (data a) = n * k"
  shows "length (row k a e) = k"
proof -
  from assms(1) have "Suc e * k \<le> n * k" by (intro mult_le_mono1) simp
  then have "e * k + k \<le> n * k" by simp
  with assms(2) show ?thesis by (simp add: row_def)
qed

lemma row_nth:
  assumes "e < n" and "length (data a) = n * k" and "i < k"
  shows "row k a e ! i = data a ! (e * k + i)"
proof -
  from assms(1) have "e * k \<le> n * k" by (intro mult_le_mono1) simp
  then have "e * k \<le> length (data a)" using assms(2) by simp
  with assms(3) show ?thesis by (simp add: row_def nth_drop)
qed

lemma score_example_shape:
  assumes "score_example g k e (cs, self) = Inr (cs', self')" and "e < n"
    and "shape cs = [n, k] \<and> length (data cs) = n * k"
  shows "shape cs' = [n, k] \<and> length (data cs') = n * k"
proof -
  from assms(1) obtain w where "cs' = set_row k cs e (map sint (memcpy_dtoh k w))"
    by (auto simp: score_example_def ebind_eq_Inr Let_def case_prod_unfold)
  with set_row_shape [OF assms(2), of cs k "map sint (memcpy_dtoh k w)"] assms(3)
  show ?thesis by (simp add: memcpy_dtoh_def)
qed

lemma p_score_init_keeps:
  "p_score_init E self g = Inr self' \<Longrightarrow>
     number_of_outputs self' = number_of_outputs self \<and> depth self' = depth self \<and>
     number_of_clauses self' = number_of_clauses self"
  by (auto simp: p_score_init_def ebind_eq_Inr split: if_splits)

lemma p_score_shape:
  assumes "p_score E self g = Inr (cs, self')"
  shows "\<exists>k. number_of_outputs self = Some (int k) \<and> shape cs = [number_of_graphs g, k] \<and>
           length (data cs) = number_of_graphs g * k"
proof -
  from assms obtain m1 outputs where i: "p_score_init E self g = Inr m1"
    and o: "number_of_outputs m1 = Some outputs" "0 \<le> outputs"
    and f: "foldE (score_example g (nat outputs)) [0..<number_of_graphs g]
              (np_zeros2 (number_of_graphs g) (nat outputs), m1) = Inr (cs, self')"
    by (auto simp: p_score_def ebind_eq_Inr attr_def split: if_splits option.splits)
  have "(\<lambda>st. shape (fst st) = [number_of_graphs g, nat outputs] \<and>
              length (data (fst st)) = number_of_graphs g * nat outputs) (cs, self')"
  proof (rule foldE_invariant [OF f])
    show "shape (fst (np_zeros2 (number_of_graphs g) (nat outputs), m1)) =
            [number_of_graphs g, nat outputs] \<and>
          length (data (fst (np_zeros2 (number_of_graphs g) (nat outputs), m1))) =
            number_of_graphs g * nat outputs"
      by (simp add: np_zeros2_def)
  next
    fix e and a b :: "int ndarray \<times> model"
    assume "e \<in> set [0..<number_of_graphs g]"
      and "shape (fst a) = [number_of_graphs g, nat outputs] \<and>
           length (data (fst a)) = number_of_graphs g * nat outputs"
      and "score_example g (nat outputs) e a = Inr b"
    then show "shape (fst b) = [number_of_graphs g, nat outputs] \<and>
               length (data (fst b)) = number_of_graphs g * nat outputs"
      using score_example_shape [of g "nat outputs" e "fst a" "snd a" "fst b" "snd b"
          "number_of_graphs g"]
      by simp
  qed
  with p_score_init_keeps [OF i] o show ?thesis
    by (intro exI [of _ "nat outputs"]) simp
qed

lemma argmax_scan_spec:
  assumes "best_i < length pre" and "pre ! best_i = best"
    and "\<forall>j<length pre. pre ! j \<le> best" and "\<forall>j<best_i. pre ! j < best"
  shows "argmax_scan xs (length pre) best_i best < length (pre @ xs) \<and>
         (\<forall>j<length (pre @ xs). (pre @ xs) ! j \<le> (pre @ xs) ! argmax_scan xs (length pre) best_i best) \<and>
         (\<forall>j<argmax_scan xs (length pre) best_i best.
             (pre @ xs) ! j < (pre @ xs) ! argmax_scan xs (length pre) best_i best)"
  using assms
proof (induction xs arbitrary: pre best_i best)
  case Nil
  then show ?case by simp
next
  case (Cons x xs)
  show ?case
  proof (cases "best < x")
    case True
    have "argmax_scan xs (length (pre @ [x])) (length pre) x < length ((pre @ [x]) @ xs) \<and>
         (\<forall>j<length ((pre @ [x]) @ xs). ((pre @ [x]) @ xs) ! j \<le>
             ((pre @ [x]) @ xs) ! argmax_scan xs (length (pre @ [x])) (length pre) x) \<and>
         (\<forall>j<argmax_scan xs (length (pre @ [x])) (length pre) x.
             ((pre @ [x]) @ xs) ! j < ((pre @ [x]) @ xs) ! argmax_scan xs (length (pre @ [x])) (length pre) x)"
    proof (rule Cons.IH)
      show "\<forall>j<length (pre @ [x]). (pre @ [x]) ! j \<le> x"
        using Cons.prems(3) True by (auto simp: nth_append less_Suc_eq)
      show "\<forall>j<length pre. (pre @ [x]) ! j < x"
        using Cons.prems(3) True by (auto simp: nth_append)
    qed simp_all
    with True show ?thesis by simp
  next
    case False
    have "argmax_scan xs (length (pre @ [x])) best_i best < length ((pre @ [x]) @ xs) \<and>
         (\<forall>j<length ((pre @ [x]) @ xs). ((pre @ [x]) @ xs) ! j \<le>
             ((pre @ [x]) @ xs) ! argmax_scan xs (length (pre @ [x])) best_i best) \<and>
         (\<forall>j<argmax_scan xs (length (pre @ [x])) best_i best.
             ((pre @ [x]) @ xs) ! j < ((pre @ [x]) @ xs) ! argmax_scan xs (length (pre @ [x])) best_i best)"
    proof (rule Cons.IH)
      show "best_i < length (pre @ [x])" using Cons.prems(1) by simp
      show "(pre @ [x]) ! best_i = best" using Cons.prems(1,2) by (simp add: nth_append)
      show "\<forall>j<length (pre @ [x]). (pre @ [x]) ! j \<le> best"
        using Cons.prems(3) False by (auto simp: nth_append less_Suc_eq)
      show "\<forall>j<best_i. (pre @ [x]) ! j < best"
        using Cons.prems(1,4) by (auto simp: nth_append)
    qed
    with False show ?thesis by simp
  qed
qed

lemma np_argmax_spec:
  assumes "xs \<noteq> []"
  shows "np_argmax xs < length xs \<and> (\<forall>j<length xs. xs ! j \<le> xs ! np_argmax xs) \<and>
         (\<forall>j<np_argmax xs. xs ! j < xs ! np_argmax xs)"
proof -
  from assms obtain x xs' where xs: "xs = x # xs'" by (cases xs) auto
  from argmax_scan_spec [of 0 "[x]" x xs'] show ?thesis
    by (simp add: xs np_argmax_def)
qed

lemma score_example_succeeds:
  assumes "score_ready self" and "graphs_ok g" and "e < number_of_graphs g"
  shows "\<exists>st'. score_example g k e (cs, self) = Inr st' \<and> score_ready (snd st')"
proof -
  from assms(1) obtain b c where b: "test_gpu self = Some b" and r: "eval_ready self b"
    and c: "class_sum_gpu self = Some c"
    by (auto simp: score_ready_def eval_ready_def dev_ready_def)
  from assms(2,3) have i1: "e < length (number_of_graph_nodes g)"
    and i2: "e < length (node_index g)" and i3: "node_index g ! e < length (edge_index g)"
    by (auto simp: graphs_ok_def list_all_iff)
  let ?self1 = "self\<lparr>class_sum_gpu :=
                         Some (memcpy_htod c (map word_of_int (row k cs e)))\<rparr>"
  have r1: "eval_ready ?self1 b" using r by (simp add: eval_ready_def dev_ready_def)
  from p_evaluate_succeeds [OF r1, of "number_of_graph_nodes g ! e" "node_index g ! e"
      "edge_index g ! (node_index g ! e)" Current_clause_node_output Next_clause_node_output]
  obtain c2 s2 b2 where ev: "p_evaluate ?self1 b (number_of_graph_nodes g ! e) (node_index g ! e)
      (edge_index g ! (node_index g ! e)) Current_clause_node_output
      Next_clause_node_output = Inr (c2, s2, b2)" and r2: "eval_ready s2 b2"
    by force
  from r2 obtain c' where c': "class_sum_gpu s2 = Some c'"
    by (auto simp: eval_ready_def dev_ready_def)
  show ?thesis
    unfolding score_example_def
    using c i1 i2 i3 b ev c' r2
    by (simp add: Let_def score_ready_def eval_ready_def dev_ready_def)
qed

lemma p_score_init_succeeds:
  assumes "dev_ready self"
    and "np_array_equal (graphs_signature_test self) (signature g) \<Longrightarrow> score_ready self"
  shows "\<exists>self'. p_score_init E self g = Inr self' \<and> score_ready self'"
  using assms
  by (cases "np_array_equal (graphs_signature_test self) (signature g)")
    (auto simp: p_score_init_def score_ready_def eval_ready_def dev_ready_def)

lemma score_ready_outputs:
  "score_ready self \<Longrightarrow> \<exists>k. number_of_outputs self = Some k \<and> 0 \<le> k"
  by (auto simp: score_ready_def eval_ready_def dev_ready_def)

lemma p_score_succeeds:
  assumes "dev_ready self"
    and "np_array_equal (graphs_signature_test self) (signature g) \<Longrightarrow> score_ready self"
    and "graphs_ok g"
  shows "\<exists>cs self'. p_score E self g = Inr (cs, self') \<and> score_ready self'"
proof -
  from p_score_init_succeeds [OF assms(1,2)] obtain m1 where i: "p_score_init E self g = Inr m1"
    and r1: "score_ready m1" by blast
  from score_ready_outputs [OF r1] obtain k where k: "number_of_outputs m1 = Some k" "0 \<le> k"
    by blast
  have "\<exists>st'. foldE (score_example g (nat k)) [0..<number_of_graphs g]
         (np_zeros2 (number_of_graphs g) (nat k), m1) = Inr st' \<and> score_ready (snd st')"
  proof (rule foldE_succeeds [where I = "\<lambda>st. score_ready (snd st)"])
    show "score_ready (snd (np_zeros2 (number_of_graphs g) (nat k), m1))" using r1 by simp
  next
    fix e and a :: "int ndarray \<times> model"
    assume "e \<in> set [0..<number_of_graphs g]" and "score_ready (snd a)"
    then show "\<exists>b. score_example g (nat k) e a = Inr b \<and> score_ready (snd b)"
      using score_example_succeeds [OF _ assms(3), of "snd a" e "nat k" "fst a"] by simp
  qed
  then obtain cs self' where "foldE (score_example g (nat k)) [0..<number_of_graphs g]
         (np_zeros2 (number_of_graphs g) (nat k), m1) = Inr (cs, self')" "score_ready self'"
    by force
  with i k show ?thesis by (simp add: p_score_def)
qed

lemma column0_shape:
  assumes "column0 a = Inr v" and "shape a = [n, k]"
  shows "0 < k \<and> shape v = [n] \<and> data v = map (\<lambda>e. data a ! (e * k)) [0..<n]"
  using assms by (auto simp: column0_def split: if_splits)

lemma GraphTsetlinMachine_score_shape:
  assumes "GraphTsetlinMachine_score E self g = Inr (v, self')"
  shows "\<exists>cs k. p_score E self g = Inr (cs, self') \<and> number_of_outputs self = Some (int k) \<and>
           0 < k \<and> length (data cs) = number_of_graphs g * k \<and>
           shape cs = [number_of_graphs g, k] \<and>
           shape v = [number_of_graphs g] \<and> data v = map (\<lambda>e. data cs ! (e * k)) [0..<number_of_graphs g]"
proof -
  from assms obtain cs where p: "p_score E self g = Inr (cs, self')" and c: "column0 cs = Inr v"
    by (auto simp: GraphTsetlinMachine_score_def ebind_eq_Inr)
  from p_score_shape [OF p] obtain k where k: "number_of_outputs self = Some (int k)"
    "shape cs = [number_of_graphs g, k]" "length (data cs) = number_of_graphs g * k"
    by blast
  from column0_shape [OF c k(2)] p k show ?thesis by blast
qed

text \<open>
  Claim C7, as amended: \<open>score\<close> of \<open>MultiClassGraphTsetlinMachine\<close> and of
  \<open>MultiOutputGraphTsetlinMachine\<close> returns an integer array of shape
  (number of examples, number of outputs); \<open>score\<close> of \<open>GraphTsetlinMachine\<close> returns the
  one-dimensional array, of shape (number of examples), that holds column 0 of that matrix.
\<close>

theorem score_shapes:
  "(MultiClassGraphTsetlinMachine_score E self g = Inr (cs, self') \<longrightarrow>
      (\<exists>k. number_of_outputs self = Some (int k) \<and> shape cs = [number_of_graphs g, k] \<and>
           length (data cs) = number_of_graphs g * k)) \<and>
   (MultiOutputGraphTsetlinMachine_score E self g = Inr (cs, self') \<longrightarrow>
      (\<exists>k. number_of_outputs self = Some (int k) \<and> shape cs = [number_of_graphs g, k] \<and>
           length (data cs) = number_of_graphs g * k)) \<and>
   (GraphTsetlinMachine_score E self g = Inr (v, self'') \<longrightarrow>
      shape v = [number_of_graphs g] \<and> length (data v) = number_of_graphs g \<and>
      (\<exists>totals k. p_score E self g = Inr (totals, self'') \<and> shape totals = [number_of_graphs g, k] \<and>
         (\<forall>e<number_of_graphs g. data v ! e = row k totals e ! 0)))"
proof (intro conjI impI)
  assume "GraphTsetlinMachine_score E self g = Inr (v, self'')"
  from GraphTsetlinMachine_score_shape [OF this] obtain totals k where
    p: "p_score E self g = Inr (totals, self'')" and k: "0 < k"
    and l: "length (data totals) = number_of_graphs g * k"
    and sh: "shape totals = [number_of_graphs g, k]"
    and v: "shape v = [number_of_graphs g]"
      "data v = map (\<lambda>e. data totals ! (e * k)) [0..<number_of_graphs g]"
    by blast
  show "shape v = [number_of_graphs g]" by (rule v(1))
  show "length (data v) = number_of_graphs g" by (simp add: v(2))
  have "\<forall>e<number_of_graphs g. data v ! e = row k totals e ! 0"
    using row_nth [OF _ l k] by (simp add: v(2))
  with p sh show "\<exists>totals k. p_score E self g = Inr (totals, self'') \<and>
      shape totals = [number_of_graphs g, k] \<and>
      (\<forall>e<number_of_graphs g. data v ! e = row k totals e ! 0)"
    by blast
qed (auto simp: MultiClassGraphTsetlinMachine_score_def MultiOutputGraphTsetlinMachine_score_def
    dest: p_score_shape)

lemma demo_fit_binary_ready:
  assumes "demo_binary = Inr m0"
  shows "\<exists>m1. GraphTsetlinMachine_fit E m0 demo_graphs \<lparr>shape = [2], data = [1, 0]\<rparr> = Inr m1 \<and>
           dev_ready m1 \<and> number_of_outputs m1 = Some 1 \<and>
           graphs_signature_test m1 = np_empty_array"
proof -
  note f = demo_models_fresh [of m0, OF disjI2, OF disjI2, OF assms]
  let ?m = "m0\<lparr>number_of_outputs := Some 1, max_y := Some None, min_y := Some None\<rparr>"
  have "\<exists>m1. p_fit E ?m demo_graphs (output_encoded_Y (T ?m) \<lparr>shape = [2], data = [1, 0]\<rparr>)
               100 False = Inr m1 \<and> dev_ready m1"
    by (rule p_fit_succeeds [where k = 1])
      (use f demo_graphs_ok in
        \<open>simp_all add: np_array_equal_def np_empty_array_def demo_graphs_def output_encoded_Y_def\<close>)
  then obtain m1 where p: "p_fit E ?m demo_graphs
      (output_encoded_Y (T ?m) \<lparr>shape = [2], data = [1, 0]\<rparr>) 100 False = Inr m1"
    and r: "dev_ready m1" by blast
  from p_fit_keeps [OF p] f have "number_of_outputs m1 = Some 1"
    "graphs_signature_test m1 = np_empty_array" by simp_all
  with p r show ?thesis by (simp add: GraphTsetlinMachine_fit_def Let_def)
qed

lemma demo_binary_scored:
  "\<exists>m0 m1 v m2. demo_binary = Inr m0 \<and>
     GraphTsetlinMachine_fit E m0 demo_graphs \<lparr>shape = [2], data = [1, 0]\<rparr> = Inr m1 \<and>
     GraphTsetlinMachine_score E m1 demo_graphs = Inr (v, m2)"
proof -
  from demo_models_Inr(3) obtain m0 where m0: "demo_binary = Inr m0" by blast
  from demo_fit_binary_ready [OF m0] obtain m1 where
    m1: "GraphTsetlinMachine_fit E m0 demo_graphs \<lparr>shape = [2], data = [1, 0]\<rparr> = Inr m1"
    and r: "dev_ready m1" and o: "number_of_outputs m1 = Some 1"
    and t: "graphs_signature_test m1 = np_empty_array"
    by blast
  have ne: "\<not> np_array_equal (graphs_signature_test m1) (signature demo_graphs)"
    by (simp add: t np_array_equal_def np_empty_array_def demo_graphs_def)
  from p_score_succeeds [OF r _ demo_graphs_ok] ne obtain cs m2 where
    p: "p_score E m1 demo_graphs = Inr (cs, m2)" by blast
  from p_score_shape [OF p] o have "shape cs = [number_of_graphs demo_graphs, 1]" by auto
  then have "\<exists>v. column0 cs = Inr v" by (simp add: column0_def)
  with m0 m1 p show ?thesis by (auto simp: GraphTsetlinMachine_score_def)
qed

text \<open>
  The claim as stated fails for the binary subclass: after a fit on two graphs its \<open>score\<close>
  has shape \<open>(2)\<close>, not \<open>(2, 1)\<close>.
\<close>

theorem binary_score_is_vector_counterexample:
  "map_sum id (\<lambda>r. shape (fst r))
     (ebind demo_binary (\<lambda>self.
      ebind (GraphTsetlinMachine_fit demo_env self demo_graphs \<lparr>shape = [2], data = [1, 0]\<rparr>) (\<lambda>self.
        GraphTsetlinMachine_score demo_env self demo_graphs))) = Inr [2]"
proof -
  from demo_binary_scored [of demo_env] obtain m0 m1 v m2 where m0: "demo_binary = Inr m0"
    and m1: "GraphTsetlinMachine_fit demo_env m0 demo_graphs \<lparr>shape = [2], data = [1, 0]\<rparr> = Inr m1"
    and s: "GraphTsetlinMachine_score demo_env m1 demo_graphs = Inr (v, m2)"
    by blast
  from GraphTsetlinMachine_score_shape [OF s] have "shape v = [2]"
    by (auto simp: demo_graphs_def)
  then show ?thesis unfolding m0 ebind_simps m1 s by simp
qed

lemma MultiClassGraphTsetlinMachine_fit_outputs:
  assumes "MultiClassGraphTsetlinMachine_fit E self g Y epochs incremental = Inr self'"
  shows "number_of_outputs self' = Some (Max (set Y) + 1)"
proof -
  from assms obtain largest where m: "np_max Y = Inr largest"
    and f: "p_fit E (self\<lparr>number_of_outputs := Some (largest + 1), max_y := Some None,
              min_y := Some None\<rparr>) g
              (multiclass_encoded_Y E (T self) Y (nat (largest + 1))) epochs incremental = Inr self'"
    by (auto simp: MultiClassGraphTsetlinMachine_fit_def ebind_eq_Inr Let_def split: if_splits)
  from np_max_Inr [OF m] p_fit_keeps [OF f] show ?thesis by simp
qed

lemma MultiOutputGraphTsetlinMachine_fit_outputs:
  assumes "MultiOutputGraphTsetlinMachine_fit E self g Y epochs incremental = Inr self'"
  shows "1 < length (shape Y) \<and> number_of_outputs self' = Some (int (shape Y ! 1))"
proof -
  from assms obtain c where c: "item (shape Y) 1 = Inr c"
    and f: "p_fit E (self\<lparr>number_of_outputs := Some (int c), max_y := Some None,
              min_y := Some None\<rparr>) g (output_encoded_Y (T self) Y) epochs incremental = Inr self'"
    by (auto simp: MultiOutputGraphTsetlinMachine_fit_def ebind_eq_Inr Let_def)
  from c p_fit_keeps [OF f] show ?thesis by (auto simp: item_def split: if_splits)
qed

lemma demo_score_multiclass:
  "\<not> isl (ebind demo_multiclass (\<lambda>self.
      ebind (MultiClassGraphTsetlinMachine_fit demo_env self demo_graphs [0, 2] 1 False) (\<lambda>self.
        MultiClassGraphTsetlinMachine_score demo_env self demo_graphs)))"
  by code_simp

lemma demo_score_multioutput:
  "\<not> isl (ebind demo_multioutput (\<lambda>self.
      ebind (MultiOutputGraphTsetlinMachine_fit demo_env self demo_graphs
               \<lparr>shape = [2, 2], data = [1, 0, 0, 1]\<rparr> 1 False) (\<lambda>self.
        MultiOutputGraphTsetlinMachine_score demo_env self demo_graphs)))"
  by code_simp

lemma not_isl_ebind2:
  "\<not> isl (ebind r (\<lambda>x. ebind (f x) h)) \<Longrightarrow> \<exists>x y z. r = Inr x \<and> f x = Inr y \<and> h y = Inr z"
proof -
  assume a: "\<not> isl (ebind r (\<lambda>x. ebind (f x) h))"
  from not_isl_ebind [OF a] obtain x w where x: "r = Inr x" and w: "ebind (f x) h = Inr w"
    by blast
  from w obtain y where "f x = Inr y" "h y = Inr w" by (auto simp: ebind_eq_Inr)
  with x show ?thesis by blast
qed

theorem score_shapes_witness:
  "map_sum id (\<lambda>r. shape (fst r))
     (ebind demo_multiclass (\<lambda>self.
      ebind (MultiClassGraphTsetlinMachine_fit demo_env self demo_graphs [0, 2] 1 False) (\<lambda>self.
        MultiClassGraphTsetlinMachine_score demo_env self demo_graphs))) = Inr [2, 3] \<and>
   map_sum id (\<lambda>r. shape (fst r))
     (ebind demo_multioutput (\<lambda>self.
      ebind (MultiOutputGraphTsetlinMachine_fit demo_env self demo_graphs
               \<lparr>shape = [2, 2], data = [1, 0, 0, 1]\<rparr> 1 False) (\<lambda>self.
        MultiOutputGraphTsetlinMachine_score demo_env self demo_graphs))) = Inr [2, 2] \<and>
   map_sum id (\<lambda>r. (shape (fst r), length (data (fst r))))
     (ebind demo_binary (\<lambda>self.
      ebind (GraphTsetlinMachine_fit demo_env self demo_graphs \<lparr>shape = [2], data = [1, 0]\<rparr>) (\<lambda>self.
        GraphTsetlinMachine_score demo_env self demo_graphs))) = Inr ([2], 2)"
proof -
  from not_isl_ebind2 [OF demo_score_multiclass] obtain a0 a1 a2 where a0: "demo_multiclass = Inr a0"
    and a1: "MultiClassGraphTsetlinMachine_fit demo_env a0 demo_graphs [0, 2] 1 False = Inr a1"
    and a2: "MultiClassGraphTsetlinMachine_score demo_env a1 demo_graphs = Inr a2"
    by blast
  from not_isl_ebind2 [OF demo_score_multioutput] obtain b0 b1 b2 where
    b0: "demo_multioutput = Inr b0"
    and b1: "MultiOutputGraphTsetlinMachine_fit demo_env b0 demo_graphs
               \<lparr>shape = [2, 2], data = [1, 0, 0, 1]\<rparr> 1 False = Inr b1"
    and b2: "MultiOutputGraphTsetlinMachine_score demo_env b1 demo_graphs = Inr b2"
    by blast
  from demo_binary_scored [of demo_env] obtain c0 c1 v c2 where c0: "demo_binary = Inr c0"
    and c1: "GraphTsetlinMachine_fit demo_env c0 demo_graphs \<lparr>shape = [2], data = [1, 0]\<rparr> = Inr c1"
    and c2: "GraphTsetlinMachine_score demo_env c1 demo_graphs = Inr (v, c2)"
    by blast
  from score_shapes [of demo_env a1 demo_graphs "fst a2" "snd a2"] a2
    MultiClassGraphTsetlinMachine_fit_outputs [OF a1]
  have A: "shape (fst a2) = [2, 3]" by (auto simp: demo_graphs_def)
  from score_shapes [of demo_env b1 demo_graphs "fst b2" "snd b2"] b2
    MultiOutputGraphTsetlinMachine_fit_outputs [OF b1]
  have B: "shape (fst b2) = [2, 2]" by (auto simp: demo_graphs_def)
  from score_shapes [of demo_env c1 demo_graphs _ _ v c2] c2
  have C: "shape v = [2]" "length (data v) = 2" by (auto simp: demo_graphs_def)
  show ?thesis
    unfolding a0 b0 c0 ebind_simps a1 b1 c1 a2 b2 c2 using A B C by simp
qed

lemma np_argmax_axis1_rows:
  assumes "np_argmax_axis1 a = Inr labels" and "shape a = [n, k]"
  shows "0 < k \<and> shape labels = [n] \<and> data labels = map (\<lambda>e. np_argmax (row k a e)) [0..<n]"
  using assms by (auto simp: np_argmax_axis1_def split: if_splits)

text \<open>
  Claim C6: \<open>predict\<close> is computed from \<open>score\<close> on the same model and graph set. For
  \<open>MultiClassGraphTsetlinMachine\<close> the label of example \<open>e\<close> is the \<open>np.argmax\<close> of the class
  sums of that example, the cells \<open>e * k\<close> to \<open>e * k + k - 1\<close> of the score matrix with \<open>k\<close>
  columns: a column holding the largest sum of the example, and the first such column. For
  \<open>MultiOutputGraphTsetlinMachine\<close> (as 1 or 0) and \<open>GraphTsetlinMachine\<close> (as a truth
  value) each entry says whether the score is at least 0.
\<close>

theorem predict_from_score:
  "(MultiClassGraphTsetlinMachine_predict E self g = Inr (labels, self') \<longrightarrow>
      (\<exists>class_sum k. MultiClassGraphTsetlinMachine_score E self g = Inr (class_sum, self') \<and>
         shape class_sum = [number_of_graphs g, k] \<and>
         length (data class_sum) = number_of_graphs g * k \<and>
         shape labels = [number_of_graphs g] \<and>
         length (data labels) = number_of_graphs g \<and>
         (\<forall>e<number_of_graphs g.
            data labels ! e < k \<and>
            (\<forall>i<k. data class_sum ! (e * k + i) \<le> data class_sum ! (e * k + data labels ! e)) \<and>
            (\<forall>i<data labels ! e.
               data class_sum ! (e * k + i) < data class_sum ! (e * k + data labels ! e))))) \<and>
   (MultiOutputGraphTsetlinMachine_predict E self g = Inr (preds, self') \<longrightarrow>
      (\<exists>class_sums. MultiOutputGraphTsetlinMachine_score E self g = Inr (class_sums, self') \<and>
         shape preds = shape class_sums \<and>
         data preds = map (\<lambda>v. if 0 \<le> v then 1 else 0) (data class_sums))) \<and>
   (GraphTsetlinMachine_predict E self g = Inr (flags, self') \<longrightarrow>
      (\<exists>score. GraphTsetlinMachine_score E self g = Inr (score, self') \<and>
         shape flags = shape score \<and> data flags = map (\<lambda>v. 0 \<le> v) (data score)))"
proof (intro conjI impI)
  assume "MultiClassGraphTsetlinMachine_predict E self g = Inr (labels, self')"
  then obtain cs where s: "MultiClassGraphTsetlinMachine_score E self g = Inr (cs, self')"
    and a: "np_argmax_axis1 cs = Inr labels"
    by (auto simp: MultiClassGraphTsetlinMachine_predict_def ebind_eq_Inr)
  from s have "p_score E self g = Inr (cs, self')"
    by (simp add: MultiClassGraphTsetlinMachine_score_def)
  from p_score_shape [OF this] obtain k where sh: "shape cs = [number_of_graphs g, k]"
    and l: "length (data cs) = number_of_graphs g * k" by blast
  from np_argmax_axis1_rows [OF a sh] have k: "0 < k" and sl: "shape labels = [number_of_graphs g]"
    and d: "data labels = map (\<lambda>e. np_argmax (row k cs e)) [0..<number_of_graphs g]"
    by simp_all
  have "data labels ! e < k \<and>
            (\<forall>i<k. data cs ! (e * k + i) \<le> data cs ! (e * k + data labels ! e)) \<and>
            (\<forall>i<data labels ! e. data cs ! (e * k + i) < data cs ! (e * k + data labels ! e))"
    if e: "e < number_of_graphs g" for e
  proof -
    let ?r = "row k cs e"
    from row_length [OF e l] k have len: "length ?r = k" and ne: "?r \<noteq> []" by auto
    from e have le: "data labels ! e = np_argmax ?r" by (simp add: d)
    from np_argmax_spec [OF ne] have b: "np_argmax ?r < k"
      and m: "\<forall>j<k. ?r ! j \<le> ?r ! np_argmax ?r"
      and f: "\<forall>j<np_argmax ?r. ?r ! j < ?r ! np_argmax ?r"
      by (simp_all add: len)
    have n: "?r ! i = data cs ! (e * k + i)" if "i < k" for i
      using row_nth [OF e l that] .
    from b m f show ?thesis
      unfolding le by (simp add: n [symmetric])
  qed
  with s sh sl d l show "\<exists>class_sum k.
      MultiClassGraphTsetlinMachine_score E self g = Inr (class_sum, self') \<and>
         shape class_sum = [number_of_graphs g, k] \<and>
         length (data class_sum) = number_of_graphs g * k \<and>
         shape labels = [number_of_graphs g] \<and>
         length (data labels) = number_of_graphs g \<and>
         (\<forall>e<number_of_graphs g.
            data labels ! e < k \<and>
            (\<forall>i<k. data class_sum ! (e * k + i) \<le> data class_sum ! (e * k + data labels ! e)) \<and>
            (\<forall>i<data labels ! e.
               data class_sum ! (e * k + i) < data class_sum ! (e * k + data labels ! e)))"
    by (intro exI [of _ cs] exI [of _ k]) simp
next
  assume "MultiOutputGraphTsetlinMachine_predict E self g = Inr (preds, self')"
  then show "\<exists>class_sums. MultiOutputGraphTsetlinMachine_score E self g = Inr (class_sums, self') \<and>
         shape preds = shape class_sums \<and>
         data preds = map (\<lambda>v. if 0 \<le> v then 1 else 0) (data class_sums)"
    by (auto simp: MultiOutputGraphTsetlinMachine_predict_def ebind_eq_Inr)
next
  assume "GraphTsetlinMachine_predict E self g = Inr (flags, self')"
  then show "\<exists>score. GraphTsetlinMachine_score E self g = Inr (score, self') \<and>
         shape flags = shape score \<and> data flags = map (\<lambda>v. 0 \<le> v) (data score)"
    by (auto simp: GraphTsetlinMachine_predict_def ebind_eq_Inr)
qed

lemma demo_test_scores_multiclass:
  "map_sum id (\<lambda>r. (shape (fst r), data (fst r)))
     (ebind demo_multiclass (\<lambda>self.
      ebind (MultiClassGraphTsetlinMachine_fit demo_env self demo_graphs [2, 0] 1 False) (\<lambda>self.
        MultiClassGraphTsetlinMachine_score demo_env self demo_graphs_test)))
   = Inr ([2, 3], [- 494, - 494, 546, 10868, 10868, - 12012])"
  by code_simp

lemma demo_test_predict_multiclass:
  "\<not> isl (ebind demo_multiclass (\<lambda>self.
      ebind (MultiClassGraphTsetlinMachine_fit demo_env self demo_graphs [2, 0] 1 False) (\<lambda>self.
        MultiClassGraphTsetlinMachine_predict demo_env self demo_graphs_test)))"
  by code_simp

lemma demo_scores_multioutput:
  "map_sum id (\<lambda>r. (shape (fst r), data (fst r)))
     (ebind demo_multioutput (\<lambda>self.
      ebind (MultiOutputGraphTsetlinMachine_fit demo_env self demo_graphs
               \<lparr>shape = [2, 2], data = [1, 0, 0, 1]\<rparr> 1 False) (\<lambda>self.
        MultiOutputGraphTsetlinMachine_score demo_env self demo_graphs)))
   = Inr ([2, 2], [546, - 494, 462, - 418])"
  by code_simp

lemma demo_predict_multioutput:
  "\<not> isl (ebind demo_multioutput (\<lambda>self.
      ebind (MultiOutputGraphTsetlinMachine_fit demo_env self demo_graphs
               \<lparr>shape = [2, 2], data = [1, 0, 0, 1]\<rparr> 1 False) (\<lambda>self.
        MultiOutputGraphTsetlinMachine_predict demo_env self demo_graphs)))"
  by code_simp

theorem predict_from_score_witness:
  "map_sum id (\<lambda>r. (shape (fst r), data (fst r)))
     (ebind demo_multiclass (\<lambda>self.
      ebind (MultiClassGraphTsetlinMachine_fit demo_env self demo_graphs [2, 0] 1 False) (\<lambda>self.
        MultiClassGraphTsetlinMachine_score demo_env self demo_graphs_test)))
     = Inr ([2, 3], [- 494, - 494, 546, 10868, 10868, - 12012]) \<and>
   map_sum id (\<lambda>r. (shape (fst r), data (fst r)))
     (ebind demo_multiclass (\<lambda>self.
      ebind (MultiClassGraphTsetlinMachine_fit demo_env self demo_graphs [2, 0] 1 False) (\<lambda>self.
        MultiClassGraphTsetlinMachine_predict demo_env self demo_graphs_test)))
     = Inr ([2], [2, 0]) \<and>
   map_sum id (\<lambda>r. (shape (fst r), data (fst r)))
     (ebind demo_multioutput (\<lambda>self.
      ebind (MultiOutputGraphTsetlinMachine_fit demo_env self demo_graphs
               \<lparr>shape = [2, 2], data = [1, 0, 0, 1]\<rparr> 1 False) (\<lambda>self.
        MultiOutputGraphTsetlinMachine_score demo_env self demo_graphs)))
     = Inr ([2, 2], [546, - 494, 462, - 418]) \<and>
   map_sum id (\<lambda>r. (shape (fst r), data (fst r)))
     (ebind demo_multioutput (\<lambda>self.
      ebind (MultiOutputGraphTsetlinMachine_fit demo_env self demo_graphs
               \<lparr>shape = [2, 2], data = [1, 0, 0, 1]\<rparr> 1 False) (\<lambda>self.
        MultiOutputGraphTsetlinMachine_predict demo_env self demo_graphs)))
     = Inr ([2, 2], [1, 0, 1, 0]) \<and>
   \<not> isl (ebind demo_binary (\<lambda>self.
      ebind (GraphTsetlinMachine_fit demo_env self demo_graphs \<lparr>shape = [2], data = [1, 0]\<rparr>) (\<lambda>self.
        GraphTsetlinMachine_predict demo_env self demo_graphs))) \<and>
   map_sum id (\<lambda>r. (shape (fst r), data (fst r)))
     (ebind demo_binary (\<lambda>self.
      ebind (GraphTsetlinMachine_fit demo_env self demo_graphs \<lparr>shape = [2], data = [1, 0]\<rparr>) (\<lambda>self.
        GraphTsetlinMachine_predict demo_env self demo_graphs)))
     = map_sum id (\<lambda>r. (shape (fst r), map (\<lambda>v. 0 \<le> v) (data (fst r))))
     (ebind demo_binary (\<lambda>self.
      ebind (GraphTsetlinMachine_fit demo_env self demo_graphs \<lparr>shape = [2], data = [1, 0]\<rparr>) (\<lambda>self.
        GraphTsetlinMachine_score demo_env self demo_graphs)))"
proof -
  from not_isl_ebind2 [OF demo_test_predict_multiclass] obtain a0 a1 a2 where
    a0: "demo_multiclass = Inr a0"
    and a1: "MultiClassGraphTsetlinMachine_fit demo_env a0 demo_graphs [2, 0] 1 False = Inr a1"
    and a2: "MultiClassGraphTsetlinMachine_predict demo_env a1 demo_graphs_test = Inr a2"
    by blast
  from not_isl_ebind2 [OF demo_predict_multioutput] obtain b0 b1 b2 where
    b0: "demo_multioutput = Inr b0"
    and b1: "MultiOutputGraphTsetlinMachine_fit demo_env b0 demo_graphs
               \<lparr>shape = [2, 2], data = [1, 0, 0, 1]\<rparr> 1 False = Inr b1"
    and b2: "MultiOutputGraphTsetlinMachine_predict demo_env b1 demo_graphs = Inr b2"
    by blast
  from demo_binary_scored [of demo_env] obtain c0 c1 v c2 where c0: "demo_binary = Inr c0"
    and c1: "GraphTsetlinMachine_fit demo_env c0 demo_graphs \<lparr>shape = [2], data = [1, 0]\<rparr> = Inr c1"
    and c2: "GraphTsetlinMachine_score demo_env c1 demo_graphs = Inr (v, c2)"
    by blast
  have c3: "GraphTsetlinMachine_predict demo_env c1 demo_graphs =
      Inr (\<lparr>shape = shape v, data = map (\<lambda>v. 0 \<le> v) (data v)\<rparr>, c2)"
    by (simp add: GraphTsetlinMachine_predict_def c2)
  obtain la ma where a2': "a2 = (la, ma)" by (cases a2)
  obtain pb mb where b2': "b2 = (pb, mb)" by (cases b2)
  have n: "number_of_graphs demo_graphs_test = 2"
    by (simp add: demo_graphs_test_def demo_graphs_def)
  from predict_from_score [of demo_env a1 demo_graphs_test la ma, THEN conjunct1, rule_format,
      OF a2 [unfolded a2']]
  obtain cs k where s: "MultiClassGraphTsetlinMachine_score demo_env a1 demo_graphs_test = Inr (cs, ma)"
    and sh: "shape cs = [2, k]" and sl: "shape la = [2]" and ll: "length (data la) = 2"
    and sp: "\<And>e. e < 2 \<Longrightarrow> data la ! e < k \<and>
            (\<forall>i<k. data cs ! (e * k + i) \<le> data cs ! (e * k + data la ! e)) \<and>
            (\<forall>i<data la ! e. data cs ! (e * k + i) < data cs ! (e * k + data la ! e))"
    unfolding n by blast
  from demo_test_scores_multiclass
  have cs: "shape cs = [2, 3]" "data cs = [- 494, - 494, 546, 10868, 10868, - 12012]"
    unfolding a0 ebind_simps a1 s by simp_all
  from sh cs(1) have k: "k = 3" by simp
  define l0 where "l0 = data la ! 0"
  define l1 where "l1 = data la ! 1"
  from sp [of 0] have p0: "l0 < 3"
    and q0: "\<forall>i<3. [- 494, - 494, 546, 10868, 10868, - 12012 :: int] ! i
               \<le> [- 494, - 494, 546, 10868, 10868, - 12012] ! l0"
    unfolding k cs l0_def by simp_all
  from p0 have "l0 = 0 \<or> l0 = 1 \<or> l0 = 2" by linarith
  with q0 [rule_format, of 2] have L0: "l0 = 2" by auto
  from sp [of 1] have p1: "l1 < 3"
    and q1: "\<forall>i<l1. [- 494, - 494, 546, 10868, 10868, - 12012 :: int] ! (3 + i)
               < [- 494, - 494, 546, 10868, 10868, - 12012] ! (3 + l1)"
    unfolding k cs l1_def by simp_all
  from p1 have "l1 = 0 \<or> l1 = 1 \<or> l1 = 2" by linarith
  with q1 [rule_format, of 0] have L1: "l1 = 0" by auto
  from ll have "data la = [data la ! 0, data la ! 1]"
    by (cases "data la"; cases "tl (data la)"; cases "tl (tl (data la))") auto
  with L0 L1 have A: "data la = [2, 0]" by (simp add: l0_def l1_def)
  from predict_from_score [of demo_env b1 demo_graphs _ mb pb, THEN conjunct2, THEN conjunct1,
      rule_format, OF b2 [unfolded b2']]
  obtain bs where t: "MultiOutputGraphTsetlinMachine_score demo_env b1 demo_graphs = Inr (bs, mb)"
    and e: "shape pb = shape bs" "data pb = map (\<lambda>v. if 0 \<le> v then 1 else 0) (data bs)"
    by auto
  from demo_scores_multioutput
  have bs: "shape bs = [2, 2]" "data bs = [546, - 494, 462, - 418]"
    unfolding b0 ebind_simps b1 t by simp_all
  from e bs have B: "shape pb = [2, 2]" "data pb = [1, 0, 1, 0]" by simp_all
  from predict_from_score [of demo_env c1 demo_graphs _ c2 _
      "\<lparr>shape = shape v, data = map (\<lambda>v. 0 \<le> v) (data v)\<rparr>",
      THEN conjunct2, THEN conjunct2, rule_format, OF c3] c2
  have C: "shape \<lparr>shape = shape v, data = map (\<lambda>v. 0 \<le> v) (data v)\<rparr> = shape v"
    "data \<lparr>shape = shape v, data = map (\<lambda>v. 0 \<le> v) (data v)\<rparr> = map (\<lambda>v. 0 \<le> v) (data v)"
    by simp_all
  show ?thesis
    unfolding a0 b0 c0 ebind_simps a1 b1 c1 a2 b2 c2 c3 s t a2' b2'
    using A B C cs bs sl by simp
qed

end
